theory Spec2Isabelle
  imports Complex_Main
begin

section \<open>Numbers, vectors and boxes\<close>

text \<open>
  The first-person controller of the chamber viewer lives in \<^verbatim>\<open>main.js\<close> (the second
  module of \<^verbatim>\<open>src/src/commons-model.js\<close>).  JavaScript numbers are modelled as exact
  reals: rounding, \<^verbatim>\<open>NaN\<close> and overflow are outside the model.  The one infinite value the
  code uses, the initial \<^verbatim>\<open>distance: Infinity\<close> of a collision result, is the value
  \<open>None\<close> of a \<open>real option\<close>.

  \<^verbatim>\<open>THREE.Vector3\<close> and \<^verbatim>\<open>THREE.Box3\<close> are plain data; their methods are written out
  as the library defines them.
\<close>

datatype vec3 = Vector3 (vx: real) (vy: real) (vz: real)

datatype box3 = Box3 (box_min: vec3) (box_max: vec3)

definition add :: "vec3 \<Rightarrow> vec3 \<Rightarrow> vec3" where
  "add a b = Vector3 (vx a + vx b) (vy a + vy b) (vz a + vz b)"

definition addScalar :: "vec3 \<Rightarrow> real \<Rightarrow> vec3" where
  "addScalar a s = Vector3 (vx a + s) (vy a + s) (vz a + s)"

definition subVectors :: "vec3 \<Rightarrow> vec3 \<Rightarrow> vec3" where
  "subVectors a b = Vector3 (vx a - vx b) (vy a - vy b) (vz a - vz b)"

definition multiplyScalar :: "vec3 \<Rightarrow> real \<Rightarrow> vec3" where
  "multiplyScalar a s = Vector3 (vx a * s) (vy a * s) (vz a * s)"

definition addScaledVector :: "vec3 \<Rightarrow> vec3 \<Rightarrow> real \<Rightarrow> vec3" where
  "addScaledVector a v s = Vector3 (vx a + vx v * s) (vy a + vy v * s) (vz a + vz v * s)"

definition distanceTo :: "vec3 \<Rightarrow> vec3 \<Rightarrow> real" where
  "distanceTo a b = sqrt ((vx a - vx b)\<^sup>2 + (vy a - vy b)\<^sup>2 + (vz a - vz b)\<^sup>2)"

definition vlength :: "vec3 \<Rightarrow> real" where
  "vlength a = sqrt (vx a * vx a + vy a * vy a + vz a * vz a)"

text \<open>\<^verbatim>\<open>normalize()\<close> divides by \<^verbatim>\<open>this.length() || 1\<close>: the zero vector stays zero.\<close>

definition normalize :: "vec3 \<Rightarrow> vec3" where
  "normalize a =
     (let l = (if vlength a = 0 then 1 else vlength a)
      in Vector3 (vx a / l) (vy a / l) (vz a / l))"

definition isEmpty :: "box3 \<Rightarrow> bool" where
  "isEmpty b \<longleftrightarrow>
     vx (box_max b) < vx (box_min b) \<or> vy (box_max b) < vy (box_min b)
     \<or> vz (box_max b) < vz (box_min b)"

definition expandByScalar :: "box3 \<Rightarrow> real \<Rightarrow> box3" where
  "expandByScalar b s = Box3 (addScalar (box_min b) (- s)) (addScalar (box_max b) s)"

definition containsPoint :: "box3 \<Rightarrow> vec3 \<Rightarrow> bool" where
  "containsPoint b p \<longleftrightarrow>
     vx p \<ge> vx (box_min b) \<and> vx p \<le> vx (box_max b) \<and>
     vy p \<ge> vy (box_min b) \<and> vy p \<le> vy (box_max b) \<and>
     vz p \<ge> vz (box_min b) \<and> vz p \<le> vz (box_max b)"

definition getCenter :: "box3 \<Rightarrow> vec3" where
  "getCenter b =
     (if isEmpty b then Vector3 0 0 0 else multiplyScalar (add (box_min b) (box_max b)) 0.5)"

definition getSize :: "box3 \<Rightarrow> vec3" where
  "getSize b = (if isEmpty b then Vector3 0 0 0 else subVectors (box_max b) (box_min b))"

section \<open>Physics constants\<close>

definition gravity :: real where
  "gravity = 30.0"

definition jumpHeight :: real where
  "jumpHeight = 2.0"

definition playerHeight :: real where
  "playerHeight = 1.6"

definition playerRadius :: real where
  "playerRadius = 0.3"

definition floorCollisionBox :: box3 where
  "floorCollisionBox = Box3 (Vector3 (-20) (-0.1) (-20)) (Vector3 20 0.1 20)"

section \<open>Solids and the collision resolver\<close>

text \<open>
  A collidable object, as far as \<^verbatim>\<open>checkCollisions\<close> looks at it.  Each field is \<open>None\<close>
  when the JavaScript property is missing (falsy):
  \<^item> \<open>position\<close>: \<^verbatim>\<open>object.position\<close>, the object's local position;
  \<^item> \<open>getWorldPosition\<close>: the vector the method of that name writes, when the object has
    the method;
  \<^item> \<open>geometry\<close>: the local bounding box \<^verbatim>\<open>object.geometry.boundingBox\<close>, computed by
    \<^verbatim>\<open>computeBoundingBox()\<close> first when it was not there yet; \<open>None\<close> for an object with
    no geometry.
\<close>

record solid =
  position :: "vec3 option"
  getWorldPosition :: "vec3 option"
  geometry :: "box3 option"

text \<open>
  The result object of \<^verbatim>\<open>checkCollisions\<close>.  \<open>distance = None\<close> is \<^verbatim>\<open>Infinity\<close>;
  \<open>object = None\<close> is a result whose \<^verbatim>\<open>object\<close> property was never assigned.
\<close>

record collision =
  colliding :: bool
  normal :: vec3
  distance :: "real option"
  object :: "solid option"

definition no_collision :: collision where
  "no_collision = \<lparr>colliding = False, normal = Vector3 0 0 0, distance = None, object = None\<rparr>"

text \<open>\<^verbatim>\<open>distance < result.distance\<close>, where the right-hand side may be \<^verbatim>\<open>Infinity\<close>.\<close>

definition closer :: "real \<Rightarrow> real option \<Rightarrow> bool" where
  "closer d r = (case r of None \<Rightarrow> True | Some e \<Rightarrow> d < e)"

text \<open>
  Lines 1715--1745: the normal and the distance reported for a position inside the
  expanded box \<open>bb\<close>.  The offsets are divided by \<^verbatim>\<open>size\<close>, the full extent of the box.
  With a positive radius, a box that contains the position and has extent 0 along an axis,
  where JavaScript divides 0 by 0, comes only from a geometry box whose corners are
  swapped; such boxes are outside the model.
\<close>

definition penetration :: "box3 \<Rightarrow> vec3 \<Rightarrow> vec3 \<times> real" where
  "penetration bb p =
     (let center = getCenter bb;
          size = getSize bb;
          dx = (vx p - vx center) / vx size;
          dy = (vy p - vy center) / vy size;
          dz = (vz p - vz center) / vz size;
          absDx = \<bar>dx\<bar>;
          absDy = \<bar>dy\<bar>;
          absDz = \<bar>dz\<bar>
      in if absDx \<le> absDy \<and> absDx \<le> absDz
         then (Vector3 (sgn dx) 0 0, (vx size / 2) - (absDx * vx size / 2))
         else if absDy \<le> absDx \<and> absDy \<le> absDz
         then (Vector3 0 (sgn dy) 0, (vy size / 2) - (absDy * vy size / 2))
         else (Vector3 0 0 (sgn dz), (vz size / 2) - (absDz * vz size / 2)))"

text \<open>
  The world-space bounding box of a solid, expanded by the player's radius
  (lines 1703--1710).
\<close>

definition expandedBox :: "box3 \<Rightarrow> vec3 \<Rightarrow> real \<Rightarrow> box3" where
  "expandedBox g objectWorldPosition radius =
     expandByScalar (Box3 (add (box_min g) objectWorldPosition)
                          (add (box_max g) objectWorldPosition)) radius"

text \<open>
  One iteration of the loop over \<^verbatim>\<open>collisionObjects\<close> (lines 1681--1755), up to the
  comparison with the best result so far: \<open>None\<close> when the object is skipped or does not
  contain the position, otherwise the normal and distance computed for it.
\<close>

definition tooFar :: "solid \<Rightarrow> vec3 \<Rightarrow> bool" where
  "tooFar ob p = (case position ob of None \<Rightarrow> False | Some c \<Rightarrow> distanceTo c p > 5)"

definition worldPosition :: "solid \<Rightarrow> vec3 option" where
  "worldPosition ob = (case getWorldPosition ob of Some w \<Rightarrow> Some w | None \<Rightarrow> position ob)"

definition testObject :: "vec3 \<Rightarrow> real \<Rightarrow> solid \<Rightarrow> (vec3 \<times> real) option" where
  "testObject p radius ob =
     (if tooFar ob p then None
      else case worldPosition ob of
        None \<Rightarrow> None
      | Some w \<Rightarrow>
          (case geometry ob of
             None \<Rightarrow> None
           | Some g \<Rightarrow>
               (let boundingBox = expandedBox g w radius
                in if containsPoint boundingBox p then Some (penetration boundingBox p)
                   else None)))"

fun checkObjects :: "vec3 \<Rightarrow> real \<Rightarrow> solid list \<Rightarrow> collision \<Rightarrow> collision" where
  "checkObjects p radius [] result = result"
| "checkObjects p radius (ob # obs) result =
     checkObjects p radius obs
       (case testObject p radius ob of
          None \<Rightarrow> result
        | Some (n, d) \<Rightarrow>
            if closer d (distance result)
            then \<lparr>colliding = True, normal = n, distance = Some d, object = Some ob\<rparr>
            else result)"

text \<open>
  \<^verbatim>\<open>checkCollisions(position, radius)\<close>, lines 1657--1759.  The module-level list
  \<^verbatim>\<open>collisionObjects\<close> it reads is the third argument.
\<close>

definition checkCollisions :: "vec3 \<Rightarrow> real \<Rightarrow> solid list \<Rightarrow> collision" where
  "checkCollisions p radius objs =
     (let playerBottom = vy p - playerHeight / 2
      in if playerBottom \<le> vy (box_max floorCollisionBox)
         then \<lparr>colliding = True, normal = Vector3 0 1 0,
               distance = Some (vy (box_max floorCollisionBox) - playerBottom),
               object = None\<rparr>
         else if objs = [] then no_collision
         else checkObjects p radius objs no_collision)"

section \<open>The library interface\<close>

text \<open>
  What the tick and the mode handlers use of three.js, taken as parameters.  \<open>'q\<close> is
  the camera's orientation (\<^verbatim>\<open>camera.quaternion\<close> and the matrix derived from it).
  \<^item> \<open>raycast\<close>: the intersections of one object (and its descendants) with the ray of
    the given origin and direction, as \<^verbatim>\<open>Raycaster.intersectObject\<close> collects them;
  \<^item> \<open>rightDirection\<close>, \<open>forwardDirection\<close>: the vectors along which
    \<^verbatim>\<open>PointerLockControls.moveRight\<close> and \<^verbatim>\<open>moveForward\<close> shift the camera, both read
    off the camera's orientation;
  \<^item> \<open>lookAt\<close>: the orientation \<^verbatim>\<open>camera.lookAt(target)\<close> gives a camera at a position;
  \<^item> \<open>orbitUpdate\<close>: \<^verbatim>\<open>OrbitControls.update()\<close> with no user gesture pending, from the
    camera's position, its orientation and the controller's target to the new position,
    orientation and target.
\<close>

record intersection =
  idistance :: real
  point :: vec3

record 'q three =
  raycast :: "solid \<Rightarrow> vec3 \<Rightarrow> vec3 \<Rightarrow> intersection list"
  rightDirection :: "'q \<Rightarrow> vec3"
  forwardDirection :: "'q \<Rightarrow> vec3"
  lookAt :: "vec3 \<Rightarrow> vec3 \<Rightarrow> 'q"
  orbitUpdate :: "vec3 \<Rightarrow> 'q \<Rightarrow> vec3 \<Rightarrow> vec3 \<times> 'q \<times> vec3"

text \<open>
  \<^verbatim>\<open>raycaster.intersectObjects(objects, true)\<close>: the intersections of all objects,
  sorted by ascending distance.
\<close>

definition intersectObjects ::
  "'q three \<Rightarrow> solid list \<Rightarrow> vec3 \<Rightarrow> vec3 \<Rightarrow> intersection list" where
  "intersectObjects L objs origin dir =
     sort_key idistance (concat (map (\<lambda>ob. raycast L ob origin dir) objs))"

section \<open>The ground detector\<close>

record ground =
  onGround :: bool
  groundY :: real

text \<open>\<^verbatim>\<open>checkGround(position)\<close>, lines 1766--1793.\<close>

definition checkGround :: "'q three \<Rightarrow> vec3 \<Rightarrow> solid list \<Rightarrow> ground" where
  "checkGround L p objs =
     (let intersects = intersectObjects L objs (Vector3 (vx p) (vy p) (vz p)) (Vector3 0 (-1) 0)
      in case intersects of
           i # _ \<Rightarrow>
             if idistance i < playerHeight * 0.5 + 0.1
             then \<lparr>onGround = True, groundY = vy (point i)\<rparr>
             else if vy p \<le> playerHeight then \<lparr>onGround = True, groundY = 0\<rparr>
             else \<lparr>onGround = False, groundY = 0\<rparr>
         | [] \<Rightarrow>
             if vy p \<le> playerHeight then \<lparr>onGround = True, groundY = 0\<rparr>
             else \<lparr>onGround = False, groundY = 0\<rparr>)"

section \<open>The controller's state\<close>

text \<open>
  The module-level variables of \<^verbatim>\<open>main.js\<close> that the handlers and the tick read or
  write, with the camera's pose and the two controllers' flags.  \<^verbatim>\<open>controls.unlock()\<close>
  is taken to clear \<^verbatim>\<open>isLocked\<close> at once.  The scratch vector \<^verbatim>\<open>direction\<close> is not part
  of the state: the tick overwrites its \<^verbatim>\<open>x\<close> and \<^verbatim>\<open>z\<close> before reading them, and its
  \<^verbatim>\<open>y\<close> is never assigned and stays at its initial 0.  The instructions panel and the
  other page elements are not modelled.
\<close>

record 'q state =
  camera_position :: vec3
  camera_quaternion :: 'q
  velocity :: vec3
  moveForward :: bool
  moveBackward :: bool
  moveLeft :: bool
  moveRight :: bool
  canJump :: bool
  isJumping :: bool
  jumpVelocity :: real
  collisionObjects :: "solid list"
  overviewMode :: bool
  controls_isLocked :: bool
  orbitControls_enabled :: bool
  orbitControls_target :: vec3

section \<open>Keyboard handlers\<close>

datatype code =
  ArrowUp | KeyW | ArrowLeft | KeyA | ArrowDown | KeyS | ArrowRight | KeyD | Space | OtherKey

text \<open>The \<^verbatim>\<open>keydown\<close> listener, lines 1260--1290.\<close>

fun keydown :: "code \<Rightarrow> 'q state \<Rightarrow> 'q state" where
  "keydown ArrowUp s = s\<lparr>moveForward := True\<rparr>"
| "keydown KeyW s = s\<lparr>moveForward := True\<rparr>"
| "keydown ArrowLeft s = s\<lparr>moveLeft := True\<rparr>"
| "keydown KeyA s = s\<lparr>moveLeft := True\<rparr>"
| "keydown ArrowDown s = s\<lparr>moveBackward := True\<rparr>"
| "keydown KeyS s = s\<lparr>moveBackward := True\<rparr>"
| "keydown ArrowRight s = s\<lparr>moveRight := True\<rparr>"
| "keydown KeyD s = s\<lparr>moveRight := True\<rparr>"
| "keydown Space s =
     (if canJump s
      then s\<lparr>jumpVelocity := sqrt (2 * gravity * jumpHeight), isJumping := True,
             canJump := False\<rparr>
      else s)"
| "keydown OtherKey s = s"

text \<open>The \<^verbatim>\<open>keyup\<close> listener, lines 1292--1311.\<close>

fun keyup :: "code \<Rightarrow> 'q state \<Rightarrow> 'q state" where
  "keyup ArrowUp s = s\<lparr>moveForward := False\<rparr>"
| "keyup KeyW s = s\<lparr>moveForward := False\<rparr>"
| "keyup ArrowLeft s = s\<lparr>moveLeft := False\<rparr>"
| "keyup KeyA s = s\<lparr>moveLeft := False\<rparr>"
| "keyup ArrowDown s = s\<lparr>moveBackward := False\<rparr>"
| "keyup KeyS s = s\<lparr>moveBackward := False\<rparr>"
| "keyup ArrowRight s = s\<lparr>moveRight := False\<rparr>"
| "keyup KeyD s = s\<lparr>moveRight := False\<rparr>"
| "keyup Space s = s"
| "keyup OtherKey s = s"

section \<open>Mode handlers\<close>

text \<open>The click listener of \<^verbatim>\<open>viewModeButton\<close>, lines 1500--1515.\<close>

definition viewModeButton_click :: "'q three \<Rightarrow> 'q state \<Rightarrow> 'q state" where
  "viewModeButton_click L s =
     (let s1 = s\<lparr>overviewMode := \<not> overviewMode s\<rparr>
      in if overviewMode s1
         then s1\<lparr>controls_isLocked := False,
                 orbitControls_enabled := True,
                 camera_position := Vector3 0 15 0,
                 camera_quaternion := lookAt L (Vector3 0 15 0) (Vector3 0 0 0)\<rparr>
         else s1\<lparr>orbitControls_enabled := False\<rparr>)"

record viewpoint =
  vp_name :: string
  vp_position :: vec3
  vp_target :: vec3

definition viewpoints :: "viewpoint list" where
  "viewpoints =
     [\<lparr>vp_name = ''Speaker's Chair'', vp_position = Vector3 0 2 (-10), vp_target = Vector3 0 1 0\<rparr>,
      \<lparr>vp_name = ''Government Frontbench'', vp_position = Vector3 2 2 0,
         vp_target = Vector3 (-2) 1 0\<rparr>,
      \<lparr>vp_name = ''Opposition Frontbench'', vp_position = Vector3 (-2) 2 0,
         vp_target = Vector3 2 1 0\<rparr>,
      \<lparr>vp_name = ''Center of Chamber'', vp_position = Vector3 0 5 0,
         vp_target = Vector3 0 0 (-5)\<rparr>,
      \<lparr>vp_name = ''Public Gallery'', vp_position = Vector3 0 8 12, vp_target = Vector3 0 1 0\<rparr>]"

text \<open>\<^verbatim>\<open>orbitControls.update()\<close> on the state.\<close>

definition orbitControls_update :: "'q three \<Rightarrow> 'q state \<Rightarrow> 'q state" where
  "orbitControls_update L s =
     (case orbitUpdate L (camera_position s) (camera_quaternion s) (orbitControls_target s) of
        (p, q, t) \<Rightarrow> s\<lparr>camera_position := p, camera_quaternion := q, orbitControls_target := t\<rparr>)"

text \<open>The click listener of a viewpoint button, lines 1581--1596.\<close>

definition viewpoint_click :: "'q three \<Rightarrow> viewpoint \<Rightarrow> 'q state \<Rightarrow> 'q state" where
  "viewpoint_click L viewpoint s =
     orbitControls_update L
       (s\<lparr>overviewMode := True,
          controls_isLocked := False,
          orbitControls_enabled := True,
          camera_position := vp_position viewpoint,
          orbitControls_target := vp_target viewpoint\<rparr>)"

section \<open>The per-tick update\<close>

text \<open>
  \<^verbatim>\<open>animate()\<close>, lines 1797--1886, cut into the blocks of the source.  \<open>delta\<close> is the
  value of \<^verbatim>\<open>clock.getDelta()\<close>.  The minimap and the renderer read the state only.
\<close>

definition setX :: "vec3 \<Rightarrow> real \<Rightarrow> vec3" where
  "setX a v = Vector3 v (vy a) (vz a)"

definition setY :: "vec3 \<Rightarrow> real \<Rightarrow> vec3" where
  "setY a v = Vector3 (vx a) v (vz a)"

definition setZ :: "vec3 \<Rightarrow> real \<Rightarrow> vec3" where
  "setZ a v = Vector3 (vx a) (vy a) v"

definition Number :: "bool \<Rightarrow> real" where
  "Number b = (if b then 1 else 0)"

text \<open>Lines 1812--1818: apply the jump velocity, then gravity.\<close>

definition applyJump :: "real \<Rightarrow> 'q state \<Rightarrow> 'q state" where
  "applyJump delta s =
     (if isJumping s
      then s\<lparr>camera_position :=
               setY (camera_position s) (vy (camera_position s) + jumpVelocity s * delta),
             jumpVelocity := jumpVelocity s - gravity * delta\<rparr>
      else s)"

text \<open>Lines 1834--1839: landing.\<close>

definition land :: "ground \<Rightarrow> 'q state \<Rightarrow> 'q state" where
  "land groundCheck s =
     (if isJumping s \<and> onGround groundCheck \<and> jumpVelocity s \<le> 0
      then s\<lparr>isJumping := False,
             jumpVelocity := 0,
             camera_position := setY (camera_position s) (groundY groundCheck + playerHeight),
             canJump := True\<rparr>
      else s)"

text \<open>Lines 1842--1846: start falling.\<close>

definition startFalling :: "ground \<Rightarrow> 'q state \<Rightarrow> 'q state" where
  "startFalling groundCheck s =
     (if \<not> isJumping s \<and> \<not> onGround groundCheck
      then s\<lparr>isJumping := True, jumpVelocity := 0, canJump := False\<rparr>
      else s)"

text \<open>Lines 1849--1854: enforce the minimum height.\<close>

definition enforceMinimumHeight :: "'q state \<Rightarrow> 'q state" where
  "enforceMinimumHeight s =
     (if vy (camera_position s) < playerHeight
      then s\<lparr>camera_position := setY (camera_position s) playerHeight,
             isJumping := False,
             jumpVelocity := 0,
             canJump := True\<rparr>
      else s)"

text \<open>Lines 1857--1865: damping, then the impulse of the pressed keys.\<close>

definition updateVelocity :: "real \<Rightarrow> 'q state \<Rightarrow> 'q state" where
  "updateVelocity delta s =
     (let x1 = vx (velocity s) - vx (velocity s) * 10.0 * delta;
          z1 = vz (velocity s) - vz (velocity s) * 10.0 * delta;
          direction = normalize (Vector3 (Number (moveRight s) - Number (moveLeft s)) 0
                                         (Number (moveForward s) - Number (moveBackward s)));
          z2 = (if moveForward s \<or> moveBackward s then z1 - vz direction * 20.0 * delta else z1);
          x2 = (if moveLeft s \<or> moveRight s then x1 - vx direction * 20.0 * delta else x1)
      in s\<lparr>velocity := Vector3 x2 (vy (velocity s)) z2\<rparr>)"

text \<open>Lines 1868--1869: \<^verbatim>\<open>controls.moveRight\<close>, then \<^verbatim>\<open>controls.moveForward\<close>.\<close>

definition controls_moveRight :: "'q three \<Rightarrow> real \<Rightarrow> 'q state \<Rightarrow> 'q state" where
  "controls_moveRight L d s =
     s\<lparr>camera_position :=
         addScaledVector (camera_position s) (rightDirection L (camera_quaternion s)) d\<rparr>"

definition controls_moveForward :: "'q three \<Rightarrow> real \<Rightarrow> 'q state \<Rightarrow> 'q state" where
  "controls_moveForward L d s =
     s\<lparr>camera_position :=
         addScaledVector (camera_position s) (forwardDirection L (camera_quaternion s)) d\<rparr>"

definition movePlayer :: "'q three \<Rightarrow> real \<Rightarrow> 'q state \<Rightarrow> 'q state" where
  "movePlayer L delta s =
     controls_moveForward L (- vz (velocity s) * delta)
       (controls_moveRight L (- vx (velocity s) * delta) s)"

text \<open>
  Lines 1875--1885: the correction for a reported collision.  \<^verbatim>\<open>multiplyScalar\<close> scales
  \<^verbatim>\<open>collision.normal\<close> in place, so the two tests that follow read the scaled vector.
  A colliding result always carries a finite distance; for the impossible other case the
  state is left as it is.
\<close>

definition applyCorrection :: "collision \<Rightarrow> 'q state \<Rightarrow> 'q state" where
  "applyCorrection collision s =
     (if colliding collision
      then (case distance collision of
              None \<Rightarrow> s
            | Some d \<Rightarrow>
                (let correction = multiplyScalar (normal collision) (d + 0.01);
                     s1 = s\<lparr>camera_position := add (camera_position s) correction\<rparr>;
                     s2 = (if vx correction \<noteq> 0 then s1\<lparr>velocity := setX (velocity s1) 0\<rparr>
                           else s1)
                 in if vz correction \<noteq> 0 then s2\<lparr>velocity := setZ (velocity s2) 0\<rparr> else s2))
      else s)"

text \<open>Lines 1872--1885.\<close>

definition resolveCollision :: "'q state \<Rightarrow> 'q state" where
  "resolveCollision s =
     applyCorrection (checkCollisions (camera_position s) playerRadius (collisionObjects s)) s"

text \<open>
  The first-person branch of the tick: lines 1808--1869 up to the player's move, then the
  collision check and correction of lines 1872--1885.
\<close>

definition integrate :: "'q three \<Rightarrow> real \<Rightarrow> 'q state \<Rightarrow> 'q state" where
  "integrate L delta s =
     (let s1 = applyJump delta s;
          groundCheck = checkGround L (camera_position s1) (collisionObjects s1);
          s2 = land groundCheck s1;
          s3 = startFalling groundCheck s2;
          s4 = enforceMinimumHeight s3;
          s5 = updateVelocity delta s4
      in movePlayer L delta s5)"

definition firstPersonUpdate :: "'q three \<Rightarrow> real \<Rightarrow> 'q state \<Rightarrow> 'q state" where
  "firstPersonUpdate L delta s = resolveCollision (integrate L delta s)"

definition animate :: "'q three \<Rightarrow> real \<Rightarrow> 'q state \<Rightarrow> 'q state" where
  "animate L delta s =
     (if overviewMode s then orbitControls_update L s
      else if controls_isLocked s then firstPersonUpdate L delta s
      else s)"

section \<open>Sample library, scene and states\<close>

text \<open>
  A concrete library instance to run the model on.  The orientation of the camera is
  given by its right vector (the first column of its matrix); \<^verbatim>\<open>moveRight\<close> moves along
  it and \<^verbatim>\<open>moveForward\<close> along the cross product of the up vector \<open>(0, 1, 0)\<close> with it,
  as \<^verbatim>\<open>PointerLockControls\<close> does.  The raycaster is a parameter.
\<close>

definition rightVectorOf :: "vec3 \<Rightarrow> vec3 \<Rightarrow> vec3" where
  "rightVectorOf eye target = normalize (Vector3 (vz eye - vz target) 0 (vx target - vx eye))"

definition exampleThree :: "(solid \<Rightarrow> vec3 \<Rightarrow> vec3 \<Rightarrow> intersection list) \<Rightarrow> vec3 three" where
  "exampleThree rc =
     \<lparr>raycast = rc,
      rightDirection = (\<lambda>q. q),
      forwardDirection = (\<lambda>q. Vector3 (vz q) 0 (- vx q)),
      lookAt = rightVectorOf,
      orbitUpdate = (\<lambda>p q t. (p, rightVectorOf p t, t))\<rparr>"

text \<open>
  A raycaster for box meshes under a ray pointing straight down: the ray meets the top
  face of the box when it starts above it, inside the box's footprint.
\<close>

definition boxRaycast :: "solid \<Rightarrow> vec3 \<Rightarrow> vec3 \<Rightarrow> intersection list" where
  "boxRaycast ob origin dir =
     (case (worldPosition ob, geometry ob) of
        (Some w, Some g) \<Rightarrow>
          (let top = vy (box_max g) + vy w
           in if dir = Vector3 0 (-1) 0
                 \<and> vx (box_min g) + vx w \<le> vx origin \<and> vx origin \<le> vx (box_max g) + vx w
                 \<and> vz (box_min g) + vz w \<le> vz origin \<and> vz origin \<le> vz (box_max g) + vz w
                 \<and> top \<le> vy origin
              then [\<lparr>idistance = vy origin - top, point = Vector3 (vx origin) top (vz origin)\<rparr>]
              else [])
      | _ \<Rightarrow> [])"

text \<open>
  The state in which \<^verbatim>\<open>main.js\<close> starts: the camera at eye level, looking down the
  negative z axis, first-person mode, pointer not locked, no collision objects loaded.
\<close>

definition initialState :: "vec3 state" where
  "initialState =
     \<lparr>camera_position = Vector3 0 1.6 10,
      camera_quaternion = Vector3 1 0 0,
      velocity = Vector3 0 0 0,
      moveForward = False, moveBackward = False, moveLeft = False, moveRight = False,
      canJump = True, isJumping = False, jumpVelocity = 0,
      collisionObjects = [],
      overviewMode = False, controls_isLocked = False,
      orbitControls_enabled = False, orbitControls_target = Vector3 0 0 0\<rparr>"

text \<open>A mesh added to the scene itself, with a box geometry centred on its position.\<close>

definition boxMesh :: "vec3 \<Rightarrow> real \<Rightarrow> real \<Rightarrow> real \<Rightarrow> solid" where
  "boxMesh c width height depth =
     \<lparr>position = Some c, getWorldPosition = Some c,
      geometry = Some (Box3 (Vector3 (- width / 2) (- height / 2) (- depth / 2))
                            (Vector3 (width / 2) (height / 2) (depth / 2)))\<rparr>"

text \<open>A beam 14 units long whose centre is 6 units from the point \<open>(0, 1.6, 0)\<close>.\<close>

definition longBeam :: solid where
  "longBeam = boxMesh (Vector3 6 1.6 0) 14 2 2"

text \<open>An object with a position and no geometry, such as a \<^verbatim>\<open>THREE.Group\<close>.\<close>

definition emptyGroup :: solid where
  "emptyGroup = \<lparr>position = Some (Vector3 0 1.6 0), getWorldPosition = Some (Vector3 0 1.6 0),
     geometry = None\<rparr>"

text \<open>The initial state once the pointer is locked.\<close>

definition lockedState :: "vec3 state" where
  "lockedState = initialState\<lparr>controls_isLocked := True\<rparr>"

text \<open>
  The platform of the fourth tier on the government side (\<^verbatim>\<open>createTieredSide\<close> with
  \<^verbatim>\<open>side = 1\<close>, \<^verbatim>\<open>tier = 3\<close>): its top face is at height 0.85.
\<close>

definition tierPlatform :: solid where
  "tierPlatform = boxMesh (Vector3 7.5 0.75 0) 2.5 0.2 26"

text \<open>A body coming down over that platform.\<close>

definition descendingState :: "vec3 state" where
  "descendingState =
     initialState\<lparr>camera_position := Vector3 7.5 1.9 0, controls_isLocked := True,
       isJumping := True, canJump := False, jumpVelocity := - 2,
       collisionObjects := [tierPlatform]\<rparr>"

text \<open>
  The collision volume of a seat on the fifth tier of the government side
  (\<^verbatim>\<open>createTieredSide\<close> with \<^verbatim>\<open>side = 1\<close>, \<^verbatim>\<open>tier = 4\<close>, first bench, first seat): a box
  1.5 by 1.2 by 0.5 centred at \<open>(9, 2.1, -11.75)\<close>.  Expanded by the player's radius it
  reaches from height 1.2 to height 3.
\<close>

definition seatVolume :: solid where
  "seatVolume = boxMesh (Vector3 9 2.1 (-11.75)) 1.5 1.2 0.5"

text \<open>A body walking to its right at the steady speed of 2, towards the side of that seat.\<close>

definition walkingState :: "vec3 state" where
  "walkingState =
     initialState\<lparr>camera_position := Vector3 7.9 1.6 (-11.35), controls_isLocked := True,
       velocity := Vector3 (- 2) 0 0, moveRight := True,
       collisionObjects := [seatVolume]\<rparr>"

text \<open>A body rising under that seat.\<close>

definition risingState :: "vec3 state" where
  "risingState =
     initialState\<lparr>camera_position := Vector3 8.1 1.5 (-11.35), controls_isLocked := True,
       isJumping := True, canJump := False, jumpVelocity := 10,
       collisionObjects := [seatVolume]\<rparr>"

text \<open>
  The box of the specification's wall scenario: centre \<open>(5, 0.5, 0)\<close>, half-extents
  \<open>(1, 1, 1)\<close>; \<open>wallExpanded\<close> is its bounding box expanded by the player's radius.
\<close>

definition wallBox :: solid where
  "wallBox = boxMesh (Vector3 5 0.5 0) 2 2 2"

definition wallExpanded :: box3 where
  "wallExpanded = expandedBox (Box3 (Vector3 (- 1) (- 1) (- 1)) (Vector3 1 1 1)) (Vector3 5 0.5 0)
     playerRadius"

text \<open>A body inside the expanded wall box, near its corner.\<close>

definition wallState :: "vec3 state" where
  "wallState =
     initialState\<lparr>camera_position := Vector3 6.2 1.7 1.2, controls_isLocked := True,
       velocity := Vector3 (- 2) 0 (- 1), isJumping := True, canJump := False,
       jumpVelocity := 3, collisionObjects := [wallBox]\<rparr>"

text \<open>
  The penetration as the specification words it, for comparison with \<open>penetration\<close>: the
  offsets from the centre are divided by the half-extents, the axis of smallest absolute
  ratio is chosen, the normal is the sign of that axis's offset and the distance is the
  half-extent times one minus the absolute ratio.
\<close>

definition specPenetration :: "box3 \<Rightarrow> vec3 \<Rightarrow> vec3 \<times> real" where
  "specPenetration bb p =
     (let center = getCenter bb;
          halfExtent = multiplyScalar (getSize bb) 0.5;
          rx = (vx p - vx center) / vx halfExtent;
          ry = (vy p - vy center) / vy halfExtent;
          rz = (vz p - vz center) / vz halfExtent
      in if \<bar>rx\<bar> \<le> \<bar>ry\<bar> \<and> \<bar>rx\<bar> \<le> \<bar>rz\<bar>
         then (Vector3 (sgn (vx p - vx center)) 0 0, vx halfExtent * (1 - \<bar>rx\<bar>))
         else if \<bar>ry\<bar> \<le> \<bar>rx\<bar> \<and> \<bar>ry\<bar> \<le> \<bar>rz\<bar>
         then (Vector3 0 (sgn (vy p - vy center)) 0, vy halfExtent * (1 - \<bar>ry\<bar>))
         else (Vector3 0 0 (sgn (vz p - vz center)), vz halfExtent * (1 - \<bar>rz\<bar>)))"

text \<open>A result that, when it reports a collision, carries a finite distance that is not negative.\<close>

definition finiteDistance :: "collision \<Rightarrow> bool" where
  "finiteDistance c \<longleftrightarrow>
     (colliding c \<longrightarrow> (case distance c of None \<Rightarrow> False | Some d \<Rightarrow> 0 \<le> d))"

text \<open>The first of the predefined viewpoints.\<close>

definition speakersChair :: viewpoint where
  "speakersChair = \<lparr>vp_name = ''Speaker's Chair'', vp_position = Vector3 0 2 (-10),
     vp_target = Vector3 0 1 0\<rparr>"

text \<open>
  Three states with the forward key held: the camera looking down the negative z axis,
  the same body with the camera turned to look down the negative x axis, and the same
  body with another state of the orbit controller.
\<close>

definition forwardState :: "vec3 state" where
  "forwardState = lockedState\<lparr>moveForward := True\<rparr>"

definition turnedState :: "vec3 state" where
  "turnedState = forwardState\<lparr>camera_quaternion := Vector3 0 0 (- 1)\<rparr>"

definition orbitedState :: "vec3 state" where
  "orbitedState = forwardState\<lparr>orbitControls_enabled := True,
     orbitControls_target := Vector3 0 1 0\<rparr>"

text \<open>
  The body: position, velocity, vertical velocity and the two jump flags.  The input
  flags: the four movement keys.
\<close>

definition body :: "'q state \<Rightarrow> vec3 \<times> vec3 \<times> real \<times> bool \<times> bool" where
  "body s = (camera_position s, velocity s, jumpVelocity s, isJumping s, canJump s)"

definition inputFlags :: "'q state \<Rightarrow> bool \<times> bool \<times> bool \<times> bool" where
  "inputFlags s = (moveForward s, moveBackward s, moveLeft s, moveRight s)"

text \<open>Overview mode, as the view-mode button enters it from the initial state.\<close>

definition overviewState :: "vec3 state" where
  "overviewState = viewModeButton_click (exampleThree boxRaycast) initialState"

section \<open>Auxiliary facts\<close>

lemma sqrt_gt_5_iff: "sqrt x > 5 \<longleftrightarrow> x > 25"
proof -
  have "sqrt 25 = 5" using real_sqrt_abs [of 5] by simp
  then show ?thesis using real_sqrt_less_iff [of 25 x] by simp
qed

lemma distanceTo_gt_5:
  "distanceTo a b > 5 \<longleftrightarrow> (vx a - vx b)\<^sup>2 + (vy a - vy b)\<^sup>2 + (vz a - vz b)\<^sup>2 > 25"
  by (simp add: distanceTo_def sqrt_gt_5_iff)

lemma testObject_tooFar: "tooFar ob p \<Longrightarrow> testObject p radius ob = None"
  by (simp add: testObject_def)

lemma checkObjects_object:
  "object (checkObjects p radius obs result) = Some ob \<Longrightarrow>
   object result = Some ob \<or> (ob \<in> set obs \<and> testObject p radius ob \<noteq> None)"
proof (induction obs arbitrary: result)
  case Nil
  then show ?case by simp
next
  case (Cons a obs)
  from Cons.IH [OF Cons.prems [simplified]] show ?case
    by (auto split: option.splits if_splits prod.splits)
qed

lemma checkCollisions_object:
  "object (checkCollisions p radius objs) = Some ob \<Longrightarrow> testObject p radius ob \<noteq> None"
  using checkObjects_object [of p radius objs no_collision ob]
  by (auto simp: checkCollisions_def Let_def no_collision_def split: if_splits)

section \<open>The jump trigger\<close>

text \<open>
  C5.  The Space key starts a jump exactly when \<open>canJump\<close> holds: the vertical velocity
  becomes \<open>sqrt (2 * gravity * jumpHeight)\<close> with gravity 30 and jump height 2,
  \<open>isJumping\<close> is set and \<open>canJump\<close> is cleared.  When \<open>canJump\<close> is false the key
  changes nothing, in particular neither the vertical velocity nor \<open>isJumping\<close>.
\<close>

theorem keydown_Space_jump:
  "(canJump s \<longrightarrow>
      keydown Space s = s\<lparr>jumpVelocity := sqrt (2 * 30 * 2), isJumping := True, canJump := False\<rparr>)
   \<and> (\<not> canJump s \<longrightarrow> keydown Space s = s)"
  by (simp add: gravity_def jumpHeight_def)

theorem keydown_Space_jump_witness:
  "canJump initialState
   \<and> jumpVelocity (keydown Space initialState) = sqrt 120
   \<and> isJumping (keydown Space initialState)
   \<and> \<not> canJump (keydown Space initialState)
   \<and> keydown Space (keydown Space initialState) = keydown Space initialState"
  using keydown_Space_jump [of initialState] keydown_Space_jump [of "keydown Space initialState"]
  by (simp add: initialState_def)

section \<open>The broad-phase cutoff\<close>

text \<open>
  C7.  A solid whose position is more than 5 units from the query position is never the
  \<open>object\<close> of the resolver's result, whatever its bounding box contains.  The centre the
  code measures from is \<^verbatim>\<open>object.position\<close>.
\<close>

theorem broad_phase_cutoff:
  "position ob = Some c \<Longrightarrow> distanceTo c p > 5 \<Longrightarrow>
   object (checkCollisions p radius objs) \<noteq> Some ob"
proof
  assume c: "position ob = Some c" and far: "distanceTo c p > 5"
    and src: "object (checkCollisions p radius objs) = Some ob"
  from c far have "tooFar ob p" by (simp add: tooFar_def)
  then have "testObject p radius ob = None" by (rule testObject_tooFar)
  with checkCollisions_object [OF src] show False by simp
qed

theorem broad_phase_cutoff_witness:
  "position longBeam = Some (Vector3 6 1.6 0)
   \<and> distanceTo (Vector3 6 1.6 0) (Vector3 0 1.6 0) > 5
   \<and> containsPoint (expandedBox (Box3 (Vector3 (-7) (-1) (-1)) (Vector3 7 1 1))
                      (Vector3 6 1.6 0) playerRadius) (Vector3 0 1.6 0)
   \<and> geometry longBeam = Some (Box3 (Vector3 (-7) (-1) (-1)) (Vector3 7 1 1))
   \<and> object (checkCollisions (Vector3 0 1.6 0) playerRadius [longBeam]) \<noteq> Some longBeam"
proof -
  have p: "position longBeam = Some (Vector3 6 1.6 0)"
    by (simp add: longBeam_def boxMesh_def)
  have d: "distanceTo (Vector3 6 1.6 0) (Vector3 0 1.6 0) > 5"
    by (simp add: distanceTo_gt_5)
  have b: "containsPoint (expandedBox (Box3 (Vector3 (-7) (-1) (-1)) (Vector3 7 1 1))
             (Vector3 6 1.6 0) playerRadius) (Vector3 0 1.6 0)"
    by (simp add: containsPoint_def expandedBox_def expandByScalar_def add_def addScalar_def
        playerRadius_def)
  have g: "geometry longBeam = Some (Box3 (Vector3 (-7) (-1) (-1)) (Vector3 7 1 1))"
    by (simp add: longBeam_def boxMesh_def)
  from broad_phase_cutoff [OF p d] p d b g show ?thesis by simp
qed

section \<open>Facts about skipped solids, the steps of the tick and the ray caster\<close>

lemma checkObjects_skip:
  "testObject p radius ob = None \<Longrightarrow>
   checkObjects p radius (xs @ ob # ys) result = checkObjects p radius (xs @ ys) result"
  by (induction xs arbitrary: result) simp_all

lemma testObject_unusable:
  "geometry ob = None \<or> (position ob = None \<and> getWorldPosition ob = None) \<Longrightarrow>
   testObject p radius ob = None"
  by (auto simp: testObject_def worldPosition_def split: option.splits)

lemma checkCollisions_skip:
  assumes "testObject p radius ob = None"
  shows "checkCollisions p radius (xs @ ob # ys) = checkCollisions p radius (xs @ ys)"
proof (cases "xs @ ys = []")
  case True
  with assms show ?thesis by (simp add: checkCollisions_def Let_def)
next
  case False
  with assms show ?thesis by (simp add: checkCollisions_def Let_def checkObjects_skip)
qed

lemma integrate_collisionObjects:
  "collisionObjects (integrate L delta s) = collisionObjects s"
  by (simp add: integrate_def Let_def movePlayer_def controls_moveForward_def
      controls_moveRight_def updateVelocity_def enforceMinimumHeight_def startFalling_def
      land_def applyJump_def)

lemma enforceMinimumHeight_floor:
  "playerHeight \<le> vy (camera_position (enforceMinimumHeight s))"
  by (simp add: enforceMinimumHeight_def setY_def)

lemma integrate_vy:
  assumes "vy (rightDirection L (camera_quaternion s)) = 0"
    and "vy (forwardDirection L (camera_quaternion s)) = 0"
  shows "vy (camera_position (integrate L delta s))
     = vy (camera_position (enforceMinimumHeight
         (startFalling (checkGround L (camera_position (applyJump delta s))
                          (collisionObjects (applyJump delta s)))
           (land (checkGround L (camera_position (applyJump delta s))
                    (collisionObjects (applyJump delta s)))
             (applyJump delta s)))))"
proof -
  define s1 where "s1 = applyJump delta s"
  define g where "g = checkGround L (camera_position s1) (collisionObjects s1)"
  define s4 where "s4 = enforceMinimumHeight (startFalling g (land g s1))"
  have q: "camera_quaternion s4 = camera_quaternion s"
    by (simp add: s4_def s1_def enforceMinimumHeight_def startFalling_def land_def applyJump_def)
  have "vy (camera_position (integrate L delta s)) = vy (camera_position s4)"
    using assms q
    by (simp add: integrate_def Let_def s4_def g_def s1_def movePlayer_def
        controls_moveForward_def controls_moveRight_def updateVelocity_def addScaledVector_def)
  then show ?thesis by (simp add: s4_def g_def s1_def)
qed

lemma integrate_height:
  assumes "vy (rightDirection L (camera_quaternion s)) = 0"
    and "vy (forwardDirection L (camera_quaternion s)) = 0"
  shows "playerHeight \<le> vy (camera_position (integrate L delta s))"
  unfolding integrate_vy [OF assms] by (rule enforceMinimumHeight_floor)

lemma applyCorrection_vertical:
  "jumpVelocity (applyCorrection c s) = jumpVelocity s
   \<and> isJumping (applyCorrection c s) = isJumping s
   \<and> canJump (applyCorrection c s) = canJump s"
  by (simp add: applyCorrection_def Let_def split: option.splits)

lemma movePlayer_vertical:
  "jumpVelocity (movePlayer L d s) = jumpVelocity s
   \<and> isJumping (movePlayer L d s) = isJumping s
   \<and> canJump (movePlayer L d s) = canJump s"
  by (simp add: movePlayer_def controls_moveForward_def controls_moveRight_def)

lemma updateVelocity_vertical:
  "jumpVelocity (updateVelocity d s) = jumpVelocity s
   \<and> isJumping (updateVelocity d s) = isJumping s
   \<and> canJump (updateVelocity d s) = canJump s"
  by (simp add: updateVelocity_def Let_def)

lemma landed_stays:
  assumes "\<not> isJumping s" "jumpVelocity s = 0" "canJump s" "onGround g"
  shows "jumpVelocity (enforceMinimumHeight (startFalling g s)) = 0
   \<and> \<not> isJumping (enforceMinimumHeight (startFalling g s))
   \<and> canJump (enforceMinimumHeight (startFalling g s))"
  using assms by (simp add: enforceMinimumHeight_def startFalling_def)

lemma sorted_hd_le:
  "sorted (map f ys) \<Longrightarrow> y \<in> set ys \<Longrightarrow> f (hd ys) \<le> f y"
  by (cases ys) auto

lemma mem_nonempty: "x \<in> set xs \<Longrightarrow> xs \<noteq> []"
  by auto

lemma intersectObjects_nearest:
  assumes "ob \<in> set objs" and "i \<in> set (raycast L ob origin dir)"
  shows "intersectObjects L objs origin dir \<noteq> []
         \<and> idistance (hd (intersectObjects L objs origin dir)) \<le> idistance i"
proof -
  let ?raw = "concat (map (\<lambda>ob. raycast L ob origin dir) objs)"
  from assms have m: "i \<in> set ?raw" by auto
  then have s: "i \<in> set (sort_key idistance ?raw)" by simp
  from s have ne: "sort_key idistance ?raw \<noteq> []" by (rule mem_nonempty)
  have "sorted (map idistance (sort_key idistance ?raw))" by simp
  from sorted_hd_le [OF this s] ne show ?thesis
    unfolding intersectObjects_def by simp
qed

lemma intersects_tier_above:
  "intersectObjects (exampleThree boxRaycast) [tierPlatform] (Vector3 7.5 1.6 0) (Vector3 0 (-1) 0)
     = [\<lparr>idistance = 0.75, point = Vector3 7.5 0.85 0\<rparr>]"
  by (simp add: intersectObjects_def exampleThree_def boxRaycast_def worldPosition_def
      tierPlatform_def boxMesh_def)

lemma intersects_tier_aside:
  "intersectObjects (exampleThree boxRaycast) [tierPlatform] (Vector3 0 y 10) (Vector3 0 (-1) 0) = []"
  by (simp add: intersectObjects_def exampleThree_def boxRaycast_def worldPosition_def
      tierPlatform_def boxMesh_def)

lemma descending_ground:
  "checkGround (exampleThree boxRaycast) (camera_position (applyJump 0.1 descendingState))
     (collisionObjects descendingState) = \<lparr>onGround = True, groundY = 0.85\<rparr>"
  by (simp add: checkGround_def intersectObjects_def exampleThree_def boxRaycast_def
      worldPosition_def tierPlatform_def boxMesh_def descendingState_def initialState_def
      applyJump_def setY_def playerHeight_def Let_def)

section \<open>Empty and unusable solids\<close>

text \<open>
  C9.  With an empty list of solids the resolver reports no collision unless the
  floor-plane test at its start fires, and the ground detector falls back to the world
  floor: supported at height 0 exactly when the position is at or below the player's
  height.  A solid without geometry, or with neither a position nor a world position, is
  skipped: the result is the one for the list without it.  In a tick with no solids, with
  the camera moving horizontally, the collision step changes nothing.
\<close>

theorem empty_solids_degrade:
  "checkCollisions p radius [] =
     (if vy p - playerHeight / 2 \<le> 0.1
      then \<lparr>colliding = True, normal = Vector3 0 1 0,
            distance = Some (0.1 - (vy p - playerHeight / 2)), object = None\<rparr>
      else no_collision)
   \<and> checkGround L p [] = \<lparr>onGround = (vy p \<le> playerHeight), groundY = 0\<rparr>
   \<and> (geometry ob = None \<or> (position ob = None \<and> getWorldPosition ob = None) \<longrightarrow>
        checkCollisions p radius (xs @ ob # ys) = checkCollisions p radius (xs @ ys))
   \<and> (collisionObjects s = [] \<and> vy (rightDirection L (camera_quaternion s)) = 0
        \<and> vy (forwardDirection L (camera_quaternion s)) = 0 \<longrightarrow>
        firstPersonUpdate L delta s = integrate L delta s)"
proof -
  have a: "checkCollisions p radius [] =
     (if vy p - playerHeight / 2 \<le> 0.1
      then \<lparr>colliding = True, normal = Vector3 0 1 0,
            distance = Some (0.1 - (vy p - playerHeight / 2)), object = None\<rparr>
      else no_collision)"
    by (simp add: checkCollisions_def Let_def floorCollisionBox_def)
  have b: "checkGround L p [] = \<lparr>onGround = (vy p \<le> playerHeight), groundY = 0\<rparr>"
    by (simp add: checkGround_def intersectObjects_def)
  have c: "geometry ob = None \<or> (position ob = None \<and> getWorldPosition ob = None) \<longrightarrow>
        checkCollisions p radius (xs @ ob # ys) = checkCollisions p radius (xs @ ys)"
    using testObject_unusable checkCollisions_skip by blast
  have d: "firstPersonUpdate L delta s = integrate L delta s"
    if e: "collisionObjects s = []"
      and r: "vy (rightDirection L (camera_quaternion s)) = 0"
      and f: "vy (forwardDirection L (camera_quaternion s)) = 0"
  proof -
    have "playerHeight \<le> vy (camera_position (integrate L delta s))"
      using r f by (rule integrate_height)
    then have "\<not> vy (camera_position (integrate L delta s)) - playerHeight / 2 \<le> 0.1"
      by (simp add: playerHeight_def)
    then show ?thesis
      using e
      by (simp add: firstPersonUpdate_def resolveCollision_def integrate_collisionObjects
          checkCollisions_def Let_def floorCollisionBox_def applyCorrection_def no_collision_def)
  qed
  from a b c d show ?thesis by blast
qed

theorem empty_solids_degrade_witness:
  "checkCollisions (Vector3 0 1.6 10) playerRadius [] = no_collision
   \<and> checkGround (exampleThree boxRaycast) (Vector3 0 1.6 10) [] = \<lparr>onGround = True, groundY = 0\<rparr>
   \<and> geometry emptyGroup = None
   \<and> checkCollisions (Vector3 0 1.6 10) playerRadius ([] @ emptyGroup # [longBeam])
       = checkCollisions (Vector3 0 1.6 10) playerRadius ([] @ [longBeam])
   \<and> collisionObjects lockedState = []
   \<and> firstPersonUpdate (exampleThree boxRaycast) 0.1 lockedState
       = integrate (exampleThree boxRaycast) 0.1 lockedState"
  using empty_solids_degrade [of "Vector3 0 1.6 10" playerRadius "exampleThree boxRaycast"
      emptyGroup "[]" "[longBeam]" lockedState "0.1"]
  by (simp add: playerHeight_def emptyGroup_def lockedState_def initialState_def exampleThree_def)

section \<open>The ground detector's cases\<close>

text \<open>
  C4.  When the downward ray meets the solids and its nearest intersection is closer than
  \<open>playerHeight / 2 + 0.1\<close> (the comparison of the code is strict), the detector reports
  support at the height of that intersection.  Failing that, it reports support at height
  0 exactly when the position is at or below \<open>playerHeight\<close>, and no support otherwise.
  The intersection it looks at is the nearest one: no intersection of any solid is closer.
\<close>

theorem checkGround_cases:
  "(let intersects = intersectObjects L objs p (Vector3 0 (-1) 0)
    in (intersects \<noteq> [] \<and> idistance (hd intersects) < playerHeight / 2 + 0.1 \<longrightarrow>
          checkGround L p objs = \<lparr>onGround = True, groundY = vy (point (hd intersects))\<rparr>)
       \<and> (intersects = [] \<or> playerHeight / 2 + 0.1 \<le> idistance (hd intersects) \<longrightarrow>
          checkGround L p objs = \<lparr>onGround = (vy p \<le> playerHeight), groundY = 0\<rparr>)
       \<and> (\<forall>ob \<in> set objs. \<forall>i \<in> set (raycast L ob p (Vector3 0 (-1) 0)).
            intersects \<noteq> [] \<and> idistance (hd intersects) \<le> idistance i))"
proof -
  let ?is = "intersectObjects L objs p (Vector3 0 (-1) 0)"
  have a: "?is \<noteq> [] \<and> idistance (hd ?is) < playerHeight / 2 + 0.1 \<longrightarrow>
      checkGround L p objs = \<lparr>onGround = True, groundY = vy (point (hd ?is))\<rparr>"
    by (cases ?is) (simp_all add: checkGround_def Let_def)
  have b: "?is = [] \<or> playerHeight / 2 + 0.1 \<le> idistance (hd ?is) \<longrightarrow>
      checkGround L p objs = \<lparr>onGround = (vy p \<le> playerHeight), groundY = 0\<rparr>"
    by (cases ?is) (auto simp: checkGround_def Let_def)
  have n: "\<forall>ob \<in> set objs. \<forall>i \<in> set (raycast L ob p (Vector3 0 (-1) 0)).
      ?is \<noteq> [] \<and> idistance (hd ?is) \<le> idistance i"
    using intersectObjects_nearest by blast
  from a b n show ?thesis unfolding Let_def by blast
qed

theorem checkGround_cases_witness:
  "intersectObjects (exampleThree boxRaycast) [tierPlatform] (Vector3 7.5 1.6 0) (Vector3 0 (- 1) 0)
     = [\<lparr>idistance = 0.75, point = Vector3 7.5 0.85 0\<rparr>]
   \<and> checkGround (exampleThree boxRaycast) (Vector3 7.5 1.6 0) [tierPlatform]
     = \<lparr>onGround = True, groundY = 0.85\<rparr>
   \<and> intersectObjects (exampleThree boxRaycast) [tierPlatform] (Vector3 0 1.6 10) (Vector3 0 (- 1) 0)
     = []
   \<and> checkGround (exampleThree boxRaycast) (Vector3 0 1.6 10) [tierPlatform]
     = \<lparr>onGround = True, groundY = 0\<rparr>
   \<and> intersectObjects (exampleThree boxRaycast) [tierPlatform] (Vector3 0 3 10) (Vector3 0 (- 1) 0)
     = []
   \<and> checkGround (exampleThree boxRaycast) (Vector3 0 3 10) [tierPlatform]
     = \<lparr>onGround = False, groundY = 0\<rparr>"
proof -
  have a: "checkGround (exampleThree boxRaycast) (Vector3 7.5 1.6 0) [tierPlatform]
     = \<lparr>onGround = True, groundY = 0.85\<rparr>"
    using checkGround_cases [of "exampleThree boxRaycast" "[tierPlatform]" "Vector3 7.5 1.6 0"]
    unfolding Let_def intersects_tier_above by (simp add: playerHeight_def)
  have b: "checkGround (exampleThree boxRaycast) (Vector3 0 1.6 10) [tierPlatform]
     = \<lparr>onGround = True, groundY = 0\<rparr>"
    using checkGround_cases [of "exampleThree boxRaycast" "[tierPlatform]" "Vector3 0 1.6 10"]
    unfolding Let_def intersects_tier_aside by (simp add: playerHeight_def)
  have c: "checkGround (exampleThree boxRaycast) (Vector3 0 3 10) [tierPlatform]
     = \<lparr>onGround = False, groundY = 0\<rparr>"
    using checkGround_cases [of "exampleThree boxRaycast" "[tierPlatform]" "Vector3 0 3 10"]
    unfolding Let_def intersects_tier_aside by (simp add: playerHeight_def)
  from a b c intersects_tier_above intersects_tier_aside [of "1.6"] intersects_tier_aside [of 3]
  show ?thesis by blast
qed

section \<open>Facts about the reported distance, and the sample scene evaluated\<close>

lemma axis_distance_nonneg:
  fixes lo hi x :: real
  assumes "lo \<le> x" "x \<le> hi"
  shows "0 \<le> (hi - lo) / 2 - \<bar>(x - (lo + hi) * 0.5) / (hi - lo)\<bar> * (hi - lo) / 2"
proof (cases "hi = lo")
  case True
  then show ?thesis by simp
next
  case False
  with assms have pos: "0 < hi - lo" by simp
  then have e: "\<bar>(x - (lo + hi) * 0.5) / (hi - lo)\<bar> * (hi - lo) = \<bar>x - (lo + hi) * 0.5\<bar>"
    by (simp add: abs_divide)
  define a where "a = \<bar>x - (lo + hi) * 0.5\<bar>"
  have "a \<le> (hi - lo) / 2"
    using assms by (simp add: a_def abs_le_iff field_simps)
  with pos have "0 \<le> (hi - lo) / 2 - a / 2" by (simp add: field_simps)
  then show ?thesis unfolding e a_def .
qed

lemma penetration_nonneg:
  assumes "containsPoint bb p"
  shows "0 \<le> snd (penetration bb p)"
proof -
  obtain lo hi where bb: "bb = Box3 lo hi" by (cases bb)
  from assms bb have c: "vx lo \<le> vx p" "vx p \<le> vx hi" "vy lo \<le> vy p" "vy p \<le> vy hi"
    "vz lo \<le> vz p" "vz p \<le> vz hi"
    by (simp_all add: containsPoint_def)
  then have ne: "\<not> isEmpty bb" using bb by (simp add: isEmpty_def)
  from ne bb have ctr: "getCenter bb = Vector3 ((vx lo + vx hi) * 0.5) ((vy lo + vy hi) * 0.5)
      ((vz lo + vz hi) * 0.5)"
    by (simp add: getCenter_def multiplyScalar_def add_def)
  from ne bb have sz: "getSize bb = Vector3 (vx hi - vx lo) (vy hi - vy lo) (vz hi - vz lo)"
    by (simp add: getSize_def subVectors_def)
  show ?thesis
    unfolding penetration_def Let_def ctr sz
    using axis_distance_nonneg [OF c(1) c(2)] axis_distance_nonneg [OF c(3) c(4)]
      axis_distance_nonneg [OF c(5) c(6)]
    by simp
qed

lemma testObject_nonneg:
  "testObject p radius ob = Some (n, d) \<Longrightarrow> 0 \<le> d"
  using penetration_nonneg
  by (auto simp: testObject_def Let_def split: if_splits option.splits)
    (metis snd_conv)

lemma checkObjects_finite:
  "finiteDistance result \<Longrightarrow> finiteDistance (checkObjects p radius obs result)"
proof (induction obs arbitrary: result)
  case Nil
  then show ?case by simp
next
  case (Cons ob obs)
  show ?case
  proof (cases "testObject p radius ob")
    case None
    with Cons show ?thesis by simp
  next
    case (Some a)
    obtain n d where a: "a = (n, d)" by (cases a)
    with Some have "0 \<le> d" using testObject_nonneg by blast
    then have "finiteDistance \<lparr>colliding = True, normal = n, distance = Some d, object = Some ob\<rparr>"
      by (simp add: finiteDistance_def)
    with Cons Some a show ?thesis by simp
  qed
qed

lemma checkCollisions_finite:
  "finiteDistance (checkCollisions p radius objs)"
proof -
  have "finiteDistance no_collision" by (simp add: finiteDistance_def no_collision_def)
  then have "finiteDistance (checkObjects p radius objs no_collision)"
    by (rule checkObjects_finite)
  then show ?thesis
    by (simp add: checkCollisions_def Let_def finiteDistance_def no_collision_def
        floorCollisionBox_def)
qed

lemmas geom_defs = testObject_def tooFar_def distanceTo_gt_5 worldPosition_def
      expandedBox_def expandByScalar_def addScalar_def add_def
      containsPoint_def closer_def no_collision_def penetration_def getCenter_def getSize_def
      isEmpty_def multiplyScalar_def subVectors_def power2_eq_square

lemma seat_hit_rising:
  "checkCollisions (Vector3 8.1 1.6 (- 11.35)) playerRadius [seatVolume]
     = \<lparr>colliding = True, normal = Vector3 0 (- 1) 0, distance = Some 0.65,
        object = Some seatVolume\<rparr>"
  by (simp add: checkCollisions_def Let_def playerHeight_def floorCollisionBox_def
      seatVolume_def boxMesh_def playerRadius_def geom_defs)

lemma seat_hit_walking:
  "checkCollisions (Vector3 8 1.6 (- 11.35)) playerRadius [seatVolume]
     = \<lparr>colliding = True, normal = Vector3 0 (- 1) 0, distance = Some 0.65,
        object = Some seatVolume\<rparr>"
  by (simp add: checkCollisions_def Let_def playerHeight_def floorCollisionBox_def
      seatVolume_def boxMesh_def playerRadius_def geom_defs)

lemma wall_hit:
  "checkCollisions (Vector3 6.2 1.7 1.2) playerRadius [wallBox]
     = \<lparr>colliding = True, normal = Vector3 1 0 0, distance = Some 0.7, object = Some wallBox\<rparr>"
  by (simp add: checkCollisions_def Let_def playerHeight_def floorCollisionBox_def
      wallBox_def boxMesh_def playerRadius_def geom_defs)

lemma wall_hit_corner:
  "checkCollisions (Vector3 6.3 1.8 1.3) playerRadius [wallBox]
     = \<lparr>colliding = True, normal = Vector3 1 0 0, distance = Some 0.65, object = Some wallBox\<rparr>"
  by (simp add: checkCollisions_def Let_def playerHeight_def floorCollisionBox_def
      wallBox_def boxMesh_def playerRadius_def geom_defs)

lemma seat_no_ray_hit:
  "x < 8.25 \<Longrightarrow>
   intersectObjects (exampleThree boxRaycast) [seatVolume] (Vector3 x y z) (Vector3 0 (- 1) 0) = []"
  by (simp add: intersectObjects_def exampleThree_def boxRaycast_def worldPosition_def
      seatVolume_def boxMesh_def Let_def)

lemma seat_ground:
  "x < 8.25 \<Longrightarrow>
   checkGround (exampleThree boxRaycast) (Vector3 x 1.6 z) [seatVolume]
     = \<lparr>onGround = True, groundY = 0\<rparr>"
  by (simp add: checkGround_def seat_no_ray_hit playerHeight_def)

lemma rising_integrate:
  "integrate (exampleThree boxRaycast) 0.01 risingState
     = risingState\<lparr>camera_position := Vector3 8.1 1.6 (- 11.35), jumpVelocity := 9.7\<rparr>"
proof -
  have a: "applyJump 0.01 risingState
      = risingState\<lparr>camera_position := Vector3 8.1 1.6 (- 11.35), jumpVelocity := 9.7\<rparr>"
    by (simp add: applyJump_def risingState_def initialState_def setY_def gravity_def)
  show ?thesis
    unfolding integrate_def Let_def a
    by (simp add: seat_ground risingState_def initialState_def land_def startFalling_def
        enforceMinimumHeight_def updateVelocity_def movePlayer_def controls_moveRight_def
        controls_moveForward_def Number_def normalize_def vlength_def addScaledVector_def
        playerHeight_def exampleThree_def)
qed

lemma walking_integrate:
  "integrate (exampleThree boxRaycast) 0.05 walkingState
     = walkingState\<lparr>camera_position := Vector3 8 1.6 (- 11.35)\<rparr>"
proof -
  have a: "applyJump 0.05 walkingState = walkingState"
    by (simp add: applyJump_def walkingState_def initialState_def)
  have g: "checkGround (exampleThree boxRaycast) (camera_position walkingState)
      (collisionObjects walkingState) = \<lparr>onGround = True, groundY = 0\<rparr>"
    using seat_ground [of "7.9" "- 11.35"] by (simp add: walkingState_def initialState_def)
  show ?thesis
    unfolding integrate_def Let_def a g
    by (simp add: walkingState_def initialState_def land_def startFalling_def
        enforceMinimumHeight_def updateVelocity_def movePlayer_def controls_moveRight_def
        controls_moveForward_def Number_def normalize_def vlength_def addScaledVector_def
        playerHeight_def exampleThree_def)
qed

lemmas box_defs = expandedBox_def expandByScalar_def addScalar_def add_def
      containsPoint_def penetration_def getCenter_def getSize_def
      isEmpty_def multiplyScalar_def subVectors_def playerRadius_def

lemma descending_integrate:
  "integrate (exampleThree boxRaycast) 0.1 descendingState
     = descendingState\<lparr>camera_position := Vector3 7.5 2.45 0, isJumping := False,
         jumpVelocity := 0, canJump := True\<rparr>"
proof -
  have a: "applyJump 0.1 descendingState
      = descendingState\<lparr>camera_position := Vector3 7.5 1.7 0, jumpVelocity := - 5\<rparr>"
    by (simp add: applyJump_def descendingState_def initialState_def setY_def gravity_def)
  have c: "collisionObjects (applyJump 0.1 descendingState) = collisionObjects descendingState"
    by (simp add: applyJump_def)
  have l: "land \<lparr>onGround = True, groundY = 0.85\<rparr> (applyJump 0.1 descendingState)
      = descendingState\<lparr>camera_position := Vector3 7.5 2.45 0, isJumping := False,
         jumpVelocity := 0, canJump := True\<rparr>"
    unfolding a
    by (simp add: land_def descendingState_def initialState_def setY_def playerHeight_def)
  show ?thesis
    unfolding integrate_def Let_def c descending_ground l
    by (simp add: descendingState_def initialState_def startFalling_def
        enforceMinimumHeight_def updateVelocity_def movePlayer_def controls_moveRight_def
        controls_moveForward_def Number_def normalize_def vlength_def addScaledVector_def
        playerHeight_def exampleThree_def)
qed

lemma descending_no_collision:
  "\<not> colliding (checkCollisions (camera_position (integrate (exampleThree boxRaycast) 0.1
       descendingState)) playerRadius (collisionObjects descendingState))"
  unfolding descending_integrate
  by (simp add: descendingState_def initialState_def checkCollisions_def Let_def playerHeight_def
      floorCollisionBox_def tierPlatform_def boxMesh_def playerRadius_def geom_defs)

section \<open>Landing\<close>

text \<open>
  C6.  In a first-person tick of a jumping body, when the ground detector reports support
  at the position reached by the jump step and the vertical velocity after the gravity
  step is not positive, the landing block sets the height to the ground height plus
  \<open>playerHeight\<close>, zeroes the vertical velocity, clears \<open>isJumping\<close> and sets \<open>canJump\<close>.
  The three flags still have these values when the tick ends, and so has the height when
  the ground height is not negative, the camera moves horizontally and the resolver
  reports no collision after the move.
\<close>

theorem landing:
  "isJumping s \<and> \<not> overviewMode s \<and> controls_isLocked s
   \<and> onGround (checkGround L (camera_position (applyJump delta s)) (collisionObjects s))
   \<and> jumpVelocity s - gravity * delta \<le> 0 \<longrightarrow>
   (let s1 = applyJump delta s;
        groundCheck = checkGround L (camera_position s1) (collisionObjects s1);
        s2 = land groundCheck s1;
        s' = animate L delta s
    in s2 = s1\<lparr>isJumping := False, jumpVelocity := 0,
                 camera_position := setY (camera_position s1) (groundY groundCheck + playerHeight),
                 canJump := True\<rparr>
       \<and> vy (camera_position s2) = groundY groundCheck + playerHeight
       \<and> jumpVelocity s' = 0 \<and> \<not> isJumping s' \<and> canJump s'
       \<and> (0 \<le> groundY groundCheck
            \<and> vy (rightDirection L (camera_quaternion s)) = 0
            \<and> vy (forwardDirection L (camera_quaternion s)) = 0
            \<and> \<not> colliding (checkCollisions (camera_position (integrate L delta s)) playerRadius
                   (collisionObjects s)) \<longrightarrow>
          vy (camera_position s') = groundY groundCheck + playerHeight))"
proof
  assume h: "isJumping s \<and> \<not> overviewMode s \<and> controls_isLocked s
   \<and> onGround (checkGround L (camera_position (applyJump delta s)) (collisionObjects s))
   \<and> jumpVelocity s - gravity * delta \<le> 0"
  define s1 where "s1 = applyJump delta s"
  define g where "g = checkGround L (camera_position s1) (collisionObjects s1)"
  define s2 where "s2 = land g s1"
  define s4 where "s4 = enforceMinimumHeight (startFalling g s2)"
  have c1: "collisionObjects s1 = collisionObjects s"
    by (simp add: s1_def applyJump_def)
  from h have j1: "isJumping s1" "jumpVelocity s1 \<le> 0"
    by (simp_all add: s1_def applyJump_def)
  from h c1 have og: "onGround g" by (simp add: g_def s1_def)
  from j1 og have l: "s2 = s1\<lparr>isJumping := False, jumpVelocity := 0,
      camera_position := setY (camera_position s1) (groundY g + playerHeight), canJump := True\<rparr>"
    by (simp add: s2_def land_def)
  then have y: "vy (camera_position s2) = groundY g + playerHeight"
    by (simp add: setY_def)
  from l have n2: "\<not> isJumping s2" "jumpVelocity s2 = 0" "canJump s2" by simp_all
  from landed_stays [OF this og]
  have f4: "jumpVelocity s4 = 0 \<and> \<not> isJumping s4 \<and> canJump s4" by (simp add: s4_def)
  have a: "animate L delta s = resolveCollision (integrate L delta s)"
    using h by (simp add: animate_def firstPersonUpdate_def)
  have i: "integrate L delta s = movePlayer L delta (updateVelocity delta s4)"
    by (simp add: integrate_def Let_def s4_def s2_def g_def s1_def)
  from f4 have f: "jumpVelocity (animate L delta s) = 0 \<and> \<not> isJumping (animate L delta s)
      \<and> canJump (animate L delta s)"
    unfolding a i
    by (simp add: resolveCollision_def applyCorrection_vertical movePlayer_vertical
        updateVelocity_vertical)
  have e: "vy (camera_position (animate L delta s)) = groundY g + playerHeight"
    if p: "0 \<le> groundY g"
      and r: "vy (rightDirection L (camera_quaternion s)) = 0"
      and fw: "vy (forwardDirection L (camera_quaternion s)) = 0"
      and nc: "\<not> colliding (checkCollisions (camera_position (integrate L delta s)) playerRadius
                   (collisionObjects s))"
  proof -
    from og n2 have "startFalling g s2 = s2" by (simp add: startFalling_def)
    moreover from p y have "\<not> vy (camera_position s2) < playerHeight" by simp
    ultimately have "s4 = s2" by (simp add: s4_def enforceMinimumHeight_def)
    with integrate_vy [OF r fw, of delta] y
    have "vy (camera_position (integrate L delta s)) = groundY g + playerHeight"
      by (simp add: s4_def s2_def g_def s1_def)
    moreover from nc have "resolveCollision (integrate L delta s) = integrate L delta s"
      by (simp add: resolveCollision_def integrate_collisionObjects applyCorrection_def)
    ultimately show ?thesis by (simp add: a)
  qed
  from l y f e show "let s1 = applyJump delta s;
        groundCheck = checkGround L (camera_position s1) (collisionObjects s1);
        s2 = land groundCheck s1;
        s' = animate L delta s
    in s2 = s1\<lparr>isJumping := False, jumpVelocity := 0,
                 camera_position := setY (camera_position s1) (groundY groundCheck + playerHeight),
                 canJump := True\<rparr>
       \<and> vy (camera_position s2) = groundY groundCheck + playerHeight
       \<and> jumpVelocity s' = 0 \<and> \<not> isJumping s' \<and> canJump s'
       \<and> (0 \<le> groundY groundCheck
            \<and> vy (rightDirection L (camera_quaternion s)) = 0
            \<and> vy (forwardDirection L (camera_quaternion s)) = 0
            \<and> \<not> colliding (checkCollisions (camera_position (integrate L delta s)) playerRadius
                   (collisionObjects s)) \<longrightarrow>
          vy (camera_position s') = groundY groundCheck + playerHeight)"
    unfolding Let_def s2_def g_def s1_def by blast
qed

theorem landing_witness:
  "isJumping descendingState \<and> \<not> overviewMode descendingState
   \<and> controls_isLocked descendingState
   \<and> onGround (checkGround (exampleThree boxRaycast)
        (camera_position (applyJump 0.1 descendingState)) (collisionObjects descendingState))
   \<and> jumpVelocity descendingState - gravity * 0.1 \<le> 0
   \<and> vy (camera_position (land \<lparr>onGround = True, groundY = 0.85\<rparr> (applyJump 0.1 descendingState)))
       = 0.85 + playerHeight
   \<and> jumpVelocity (animate (exampleThree boxRaycast) 0.1 descendingState) = 0
   \<and> \<not> isJumping (animate (exampleThree boxRaycast) 0.1 descendingState)
   \<and> canJump (animate (exampleThree boxRaycast) 0.1 descendingState)
   \<and> vy (camera_position (animate (exampleThree boxRaycast) 0.1 descendingState))
       = 0.85 + playerHeight"
proof -
  have h: "isJumping descendingState \<and> \<not> overviewMode descendingState
   \<and> controls_isLocked descendingState
   \<and> onGround (checkGround (exampleThree boxRaycast)
        (camera_position (applyJump 0.1 descendingState)) (collisionObjects descendingState))
   \<and> jumpVelocity descendingState - gravity * 0.1 \<le> 0"
    unfolding descending_ground
    by (simp add: descendingState_def initialState_def gravity_def)
  have c: "collisionObjects (applyJump 0.1 descendingState) = collisionObjects descendingState"
    by (simp add: applyJump_def)
  have d: "vy (rightDirection (exampleThree boxRaycast) (camera_quaternion descendingState)) = 0"
    "vy (forwardDirection (exampleThree boxRaycast) (camera_quaternion descendingState)) = 0"
    by (simp_all add: exampleThree_def descendingState_def initialState_def)
  from landing [of descendingState "exampleThree boxRaycast" "0.1"] h d descending_no_collision
  show ?thesis
    unfolding Let_def c descending_ground by (simp add: setY_def)
qed

section \<open>The floor invariant\<close>

text \<open>
  C1.  After every first-person tick the height of the body is at least \<open>playerHeight\<close>.
  The tick enforces the minimum height before the move and the collision correction; a
  correction with a downward normal comes after it.  Here a body at height 1.6 walks into
  the side of a seat volume whose centre lies above it: the height is still 1.6 after the
  move, the resolver answers with the normal \<open>(0, -1, 0)\<close> and the distance 0.65, and the
  tick ends at height 0.94.
\<close>

theorem walking_below_floor:
  "vy (camera_position walkingState) = playerHeight
   \<and> vy (camera_position (integrate (exampleThree boxRaycast) 0.05 walkingState)) = playerHeight
   \<and> vy (camera_position (animate (exampleThree boxRaycast) 0.05 walkingState)) = 0.94
   \<and> vy (camera_position (animate (exampleThree boxRaycast) 0.05 walkingState)) < playerHeight"
proof -
  have e: "animate (exampleThree boxRaycast) 0.05 walkingState
      = resolveCollision (integrate (exampleThree boxRaycast) 0.05 walkingState)"
    unfolding animate_def firstPersonUpdate_def
    by (simp add: walkingState_def initialState_def)
  have "vy (camera_position (animate (exampleThree boxRaycast) 0.05 walkingState)) = 0.94"
    unfolding e walking_integrate resolveCollision_def
    using seat_hit_walking
    by (simp add: walkingState_def initialState_def applyCorrection_def multiplyScalar_def
        add_def)
  moreover have "vy (camera_position (integrate (exampleThree boxRaycast) 0.05 walkingState))
      = playerHeight"
    unfolding walking_integrate by (simp add: playerHeight_def)
  moreover have "vy (camera_position walkingState) = playerHeight"
    by (simp add: walkingState_def initialState_def playerHeight_def)
  ultimately show ?thesis by (simp add: playerHeight_def)
qed

section \<open>The reported penetration\<close>

text \<open>
  C2.  For a position inside the expanded box the resolver takes the axis of smallest
  absolute ratio, the sign of its offset as normal, and the half-extent times one minus the
  absolute ratio as distance, the ratios being the offsets over the half-extents, so that
  the distance tends to 0 at the boundary.  The code divides the offsets by the full size
  of the box: at \<open>(6.2, 1.7, 1.2)\<close>, 0.1 inside the faces of the expanded wall box, it
  reports 0.7 where the wording gives 0.1, and at the corner \<open>(6.3, 1.8, 1.3)\<close> of the box
  it reports 0.65 where the wording gives 0.
\<close>

theorem reported_distance_at_boundary:
  "containsPoint wallExpanded (Vector3 6.2 1.7 1.2)
   \<and> checkCollisions (Vector3 6.2 1.7 1.2) playerRadius [wallBox]
       = \<lparr>colliding = True, normal = Vector3 1 0 0, distance = Some 0.7, object = Some wallBox\<rparr>
   \<and> specPenetration wallExpanded (Vector3 6.2 1.7 1.2) = (Vector3 1 0 0, 0.1)
   \<and> containsPoint wallExpanded (Vector3 6.3 1.8 1.3)
   \<and> checkCollisions (Vector3 6.3 1.8 1.3) playerRadius [wallBox]
       = \<lparr>colliding = True, normal = Vector3 1 0 0, distance = Some 0.65, object = Some wallBox\<rparr>
   \<and> specPenetration wallExpanded (Vector3 6.3 1.8 1.3) = (Vector3 1 0 0, 0)"
proof -
  have a: "containsPoint wallExpanded (Vector3 6.2 1.7 1.2)"
    by (simp add: wallExpanded_def box_defs)
  have b: "specPenetration wallExpanded (Vector3 6.2 1.7 1.2) = (Vector3 1 0 0, 0.1)"
    by (simp add: specPenetration_def wallExpanded_def Let_def box_defs)
  have c: "containsPoint wallExpanded (Vector3 6.3 1.8 1.3)"
    by (simp add: wallExpanded_def box_defs)
  have d: "specPenetration wallExpanded (Vector3 6.3 1.8 1.3) = (Vector3 1 0 0, 0)"
    by (simp add: specPenetration_def wallExpanded_def Let_def box_defs)
  from a b c d wall_hit wall_hit_corner show ?thesis by simp
qed

section \<open>The collision correction\<close>

text \<open>
  C3, as the code has it.  When the resolver reports a collision, its distance \<open>d\<close> is
  finite and not negative, the position moves by the normal times \<open>d + 0.01\<close>, the x
  component of \<open>velocity\<close> is zeroed when the normal's x component is not 0 and the z
  component when the normal's z component is not 0.  Nothing else changes: the vertical
  velocity \<open>jumpVelocity\<close> keeps its value whatever the normal's y component is, and so do
  \<open>isJumping\<close> and \<open>canJump\<close>.  Without a collision the state is unchanged.
\<close>

theorem collision_correction:
  "(let c = checkCollisions (camera_position s) playerRadius (collisionObjects s);
        s' = resolveCollision s
    in (colliding c \<longrightarrow>
          (\<exists>d. distance c = Some d \<and> 0 \<le> d
             \<and> camera_position s' = add (camera_position s) (multiplyScalar (normal c) (d + 0.01)))
          \<and> vx (velocity s') = (if vx (normal c) \<noteq> 0 then 0 else vx (velocity s))
          \<and> vz (velocity s') = (if vz (normal c) \<noteq> 0 then 0 else vz (velocity s))
          \<and> vy (velocity s') = vy (velocity s))
       \<and> (\<not> colliding c \<longrightarrow> s' = s)
       \<and> jumpVelocity s' = jumpVelocity s \<and> isJumping s' = isJumping s
       \<and> canJump s' = canJump s)"
proof -
  define c where "c = checkCollisions (camera_position s) playerRadius (collisionObjects s)"
  have r: "resolveCollision s = applyCorrection c s"
    by (simp add: resolveCollision_def c_def)
  have v: "jumpVelocity (applyCorrection c s) = jumpVelocity s
      \<and> isJumping (applyCorrection c s) = isJumping s
      \<and> canJump (applyCorrection c s) = canJump s"
    by (rule applyCorrection_vertical)
  have n: "\<not> colliding c \<longrightarrow> applyCorrection c s = s"
    by (simp add: applyCorrection_def)
  have h: "(\<exists>d. distance c = Some d \<and> 0 \<le> d
             \<and> camera_position (applyCorrection c s)
                 = add (camera_position s) (multiplyScalar (normal c) (d + 0.01)))
          \<and> vx (velocity (applyCorrection c s)) = (if vx (normal c) \<noteq> 0 then 0 else vx (velocity s))
          \<and> vz (velocity (applyCorrection c s)) = (if vz (normal c) \<noteq> 0 then 0 else vz (velocity s))
          \<and> vy (velocity (applyCorrection c s)) = vy (velocity s)"
    if col: "colliding c"
  proof -
    from col checkCollisions_finite [of "camera_position s" playerRadius "collisionObjects s"]
    obtain d where d: "distance c = Some d" "0 \<le> d"
      by (auto simp: finiteDistance_def c_def split: option.splits)
    then have nz: "d + 0.01 \<noteq> 0" by simp
    from col d nz show ?thesis
      by (simp add: applyCorrection_def Let_def multiplyScalar_def setX_def setZ_def)
  qed
  from h n v show ?thesis unfolding Let_def c_def [symmetric] r by blast
qed

theorem collision_correction_witness:
  "colliding (checkCollisions (camera_position wallState) playerRadius (collisionObjects wallState))
   \<and> camera_position (resolveCollision wallState) = Vector3 6.91 1.7 1.2
   \<and> velocity (resolveCollision wallState) = Vector3 0 0 (- 1)
   \<and> jumpVelocity (resolveCollision wallState) = 3
   \<and> \<not> colliding (checkCollisions (camera_position lockedState) playerRadius
        (collisionObjects lockedState))
   \<and> resolveCollision lockedState = lockedState"
proof -
  have c: "checkCollisions (camera_position wallState) playerRadius (collisionObjects wallState)
      = \<lparr>colliding = True, normal = Vector3 1 0 0, distance = Some 0.7, object = Some wallBox\<rparr>"
    using wall_hit by (simp add: wallState_def initialState_def)
  have n: "checkCollisions (camera_position lockedState) playerRadius (collisionObjects lockedState)
      = no_collision"
    by (simp add: lockedState_def initialState_def checkCollisions_def Let_def playerHeight_def
        floorCollisionBox_def)
  have w: "camera_position wallState = Vector3 6.2 1.7 1.2" "velocity wallState = Vector3 (- 2) 0 (- 1)"
    "jumpVelocity wallState = 3"
    by (simp_all add: wallState_def initialState_def)
  have "camera_position (resolveCollision wallState) = Vector3 6.91 1.7 1.2
      \<and> velocity (resolveCollision wallState) = Vector3 0 0 (- 1)
      \<and> jumpVelocity (resolveCollision wallState) = 3"
    using collision_correction [of wallState] unfolding Let_def c unfolding w
    by (cases "velocity (resolveCollision wallState)") (auto simp: add_def multiplyScalar_def)
  moreover have "resolveCollision lockedState = lockedState"
    using collision_correction [of lockedState] unfolding Let_def n
    by (simp add: no_collision_def)
  ultimately show ?thesis using c n by (simp add: no_collision_def)
qed

text \<open>
  The statement of C3 with the vertical velocity included fails: a body rising under the
  seat volume is pushed down along \<open>(0, -1, 0)\<close> and keeps its vertical velocity of 9.7.
\<close>

theorem rising_keeps_velocity:
  "colliding (checkCollisions (camera_position (integrate (exampleThree boxRaycast) 0.01 risingState))
      playerRadius (collisionObjects (integrate (exampleThree boxRaycast) 0.01 risingState)))
   \<and> normal (checkCollisions (camera_position (integrate (exampleThree boxRaycast) 0.01 risingState))
      playerRadius (collisionObjects (integrate (exampleThree boxRaycast) 0.01 risingState)))
      = Vector3 0 (- 1) 0
   \<and> jumpVelocity (animate (exampleThree boxRaycast) 0.01 risingState) = 9.7
   \<and> jumpVelocity (animate (exampleThree boxRaycast) 0.01 risingState) \<noteq> 0"
proof -
  have c: "checkCollisions (camera_position (integrate (exampleThree boxRaycast) 0.01 risingState))
      playerRadius (collisionObjects (integrate (exampleThree boxRaycast) 0.01 risingState))
      = \<lparr>colliding = True, normal = Vector3 0 (- 1) 0, distance = Some 0.65,
         object = Some seatVolume\<rparr>"
    unfolding rising_integrate
    using seat_hit_rising by (simp add: risingState_def initialState_def)
  have e: "animate (exampleThree boxRaycast) 0.01 risingState
      = resolveCollision (integrate (exampleThree boxRaycast) 0.01 risingState)"
    unfolding animate_def firstPersonUpdate_def
    by (simp add: risingState_def initialState_def)
  have "jumpVelocity (animate (exampleThree boxRaycast) 0.01 risingState) = 9.7"
    unfolding e resolveCollision_def c
    unfolding rising_integrate
    by (simp add: applyCorrection_def Let_def)
  with c show ?thesis by simp
qed

section \<open>Mode transitions\<close>

text \<open>
  C8.  The transitions that re-enter the current mode are idempotent.  The code has one:
  selecting a viewpoint in overview mode.  Selecting the same viewpoint twice gives the
  same state, mode and camera included, as selecting it once, the orbit controller's
  update for that viewpoint not depending on the orientation the camera had before; and
  in overview mode, with the pointer unlocked and the orbit controller enabled, the
  selection does nothing but the snap of the camera and of the controller's target.
  First-person mode is never re-entered: selecting a viewpoint always ends in overview
  mode, and the view-mode button always flips the mode.
\<close>

theorem mode_transitions:
  "((\<forall>q q'. orbitUpdate L (vp_position v) q (vp_target v)
              = orbitUpdate L (vp_position v) q' (vp_target v)) \<longrightarrow>
      viewpoint_click L v (viewpoint_click L v s) = viewpoint_click L v s)
   \<and> (overviewMode s \<and> \<not> controls_isLocked s \<and> orbitControls_enabled s \<longrightarrow>
        viewpoint_click L v s
          = orbitControls_update L
              (s\<lparr>camera_position := vp_position v, orbitControls_target := vp_target v\<rparr>))
   \<and> overviewMode (viewpoint_click L v s)
   \<and> \<not> controls_isLocked (viewpoint_click L v s)
   \<and> orbitControls_enabled (viewpoint_click L v s)
   \<and> overviewMode (viewModeButton_click L s) = (\<not> overviewMode s)"
proof -
  have flags: "overviewMode (viewpoint_click L v s) \<and> \<not> controls_isLocked (viewpoint_click L v s)
      \<and> orbitControls_enabled (viewpoint_click L v s)"
    by (simp add: viewpoint_click_def orbitControls_update_def split: prod.splits)
  have toggle: "overviewMode (viewModeButton_click L s) = (\<not> overviewMode s)"
    by (simp add: viewModeButton_click_def Let_def)
  have idem: "viewpoint_click L v (viewpoint_click L v s) = viewpoint_click L v s"
    if h: "\<forall>q q'. orbitUpdate L (vp_position v) q (vp_target v)
              = orbitUpdate L (vp_position v) q' (vp_target v)"
  proof -
    obtain p q t where u: "orbitUpdate L (vp_position v) (camera_quaternion s) (vp_target v) = (p, q, t)"
      by (cases "orbitUpdate L (vp_position v) (camera_quaternion s) (vp_target v)") auto
    with h have u': "orbitUpdate L (vp_position v) q (vp_target v) = (p, q, t)"
      by metis
    show ?thesis
      by (simp add: viewpoint_click_def orbitControls_update_def u u')
  qed
  have snap: "viewpoint_click L v s
          = orbitControls_update L
              (s\<lparr>camera_position := vp_position v, orbitControls_target := vp_target v\<rparr>)"
    if o: "overviewMode s \<and> \<not> controls_isLocked s \<and> orbitControls_enabled s"
  proof -
    from o have "s\<lparr>overviewMode := True, controls_isLocked := False,
          orbitControls_enabled := True, camera_position := vp_position v,
          orbitControls_target := vp_target v\<rparr>
        = s\<lparr>camera_position := vp_position v, orbitControls_target := vp_target v\<rparr>"
      by (cases s) simp
    then show ?thesis by (simp add: viewpoint_click_def)
  qed
  from flags toggle idem snap show ?thesis by blast
qed

theorem mode_transitions_witness:
  "(\<forall>q q'. orbitUpdate (exampleThree boxRaycast) (vp_position speakersChair) q (vp_target speakersChair)
       = orbitUpdate (exampleThree boxRaycast) (vp_position speakersChair) q' (vp_target speakersChair))
   \<and> overviewMode overviewState \<and> \<not> controls_isLocked overviewState
   \<and> orbitControls_enabled overviewState
   \<and> viewpoint_click (exampleThree boxRaycast) speakersChair
        (viewpoint_click (exampleThree boxRaycast) speakersChair overviewState)
       = viewpoint_click (exampleThree boxRaycast) speakersChair overviewState
   \<and> viewpoint_click (exampleThree boxRaycast) speakersChair overviewState
       = orbitControls_update (exampleThree boxRaycast)
           (overviewState\<lparr>camera_position := vp_position speakersChair,
              orbitControls_target := vp_target speakersChair\<rparr>)
   \<and> overviewMode (viewpoint_click (exampleThree boxRaycast) speakersChair overviewState)
   \<and> camera_position overviewState = Vector3 0 15 0
   \<and> camera_position (viewpoint_click (exampleThree boxRaycast) speakersChair overviewState)
       = Vector3 0 2 (- 10)
   \<and> speakersChair \<in> set viewpoints"
proof -
  have h: "\<forall>q q'. orbitUpdate (exampleThree boxRaycast) (vp_position speakersChair) q
        (vp_target speakersChair)
       = orbitUpdate (exampleThree boxRaycast) (vp_position speakersChair) q' (vp_target speakersChair)"
    by (simp add: exampleThree_def)
  have o: "overviewMode overviewState \<and> \<not> controls_isLocked overviewState
      \<and> orbitControls_enabled overviewState"
    by (simp add: overviewState_def viewModeButton_click_def Let_def initialState_def)
  have c: "camera_position overviewState = Vector3 0 15 0"
    by (simp add: overviewState_def viewModeButton_click_def Let_def initialState_def)
  have p: "camera_position (viewpoint_click (exampleThree boxRaycast) speakersChair overviewState)
       = Vector3 0 2 (- 10)"
    by (simp add: viewpoint_click_def orbitControls_update_def exampleThree_def speakersChair_def)
  have m: "speakersChair \<in> set viewpoints"
    by (simp add: viewpoints_def speakersChair_def)
  from mode_transitions [of "exampleThree boxRaycast" speakersChair overviewState] h o c p m
  show ?thesis by blast
qed

section \<open>Determinism of the tick\<close>

lemma state_eq_upto_orbit:
  fixes s1 s2 :: "'q state"
  assumes "body s1 = body s2" "inputFlags s1 = inputFlags s2"
    "collisionObjects s1 = collisionObjects s2" "camera_quaternion s1 = camera_quaternion s2"
    "overviewMode s1 = overviewMode s2" "controls_isLocked s1 = controls_isLocked s2"
  shows "s2 = s1\<lparr>orbitControls_enabled := orbitControls_enabled s2,
                 orbitControls_target := orbitControls_target s2\<rparr>"
  using assms by (cases s1; cases s2) (simp add: body_def inputFlags_def)

lemma applyJump_orbit:
  "applyJump delta (s\<lparr>orbitControls_enabled := e, orbitControls_target := t\<rparr>)
     = (applyJump delta s)\<lparr>orbitControls_enabled := e, orbitControls_target := t\<rparr>"
  by (simp add: applyJump_def)

lemma land_orbit:
  "land g (s\<lparr>orbitControls_enabled := e, orbitControls_target := t\<rparr>)
     = (land g s)\<lparr>orbitControls_enabled := e, orbitControls_target := t\<rparr>"
  by (simp add: land_def)

lemma startFalling_orbit:
  "startFalling g (s\<lparr>orbitControls_enabled := e, orbitControls_target := t\<rparr>)
     = (startFalling g s)\<lparr>orbitControls_enabled := e, orbitControls_target := t\<rparr>"
  by (simp add: startFalling_def)

lemma enforceMinimumHeight_orbit:
  "enforceMinimumHeight (s\<lparr>orbitControls_enabled := e, orbitControls_target := t\<rparr>)
     = (enforceMinimumHeight s)\<lparr>orbitControls_enabled := e, orbitControls_target := t\<rparr>"
  by (simp add: enforceMinimumHeight_def)

lemma updateVelocity_orbit:
  "updateVelocity delta (s\<lparr>orbitControls_enabled := e, orbitControls_target := t\<rparr>)
     = (updateVelocity delta s)\<lparr>orbitControls_enabled := e, orbitControls_target := t\<rparr>"
  by (simp add: updateVelocity_def Let_def)

lemma movePlayer_orbit:
  "movePlayer L delta (s\<lparr>orbitControls_enabled := e, orbitControls_target := t\<rparr>)
     = (movePlayer L delta s)\<lparr>orbitControls_enabled := e, orbitControls_target := t\<rparr>"
  by (simp add: movePlayer_def controls_moveForward_def controls_moveRight_def)

lemma applyCorrection_orbit:
  "applyCorrection c (s\<lparr>orbitControls_enabled := e, orbitControls_target := t\<rparr>)
     = (applyCorrection c s)\<lparr>orbitControls_enabled := e, orbitControls_target := t\<rparr>"
  by (simp add: applyCorrection_def Let_def split: option.splits)

lemma resolveCollision_orbit:
  "resolveCollision (s\<lparr>orbitControls_enabled := e, orbitControls_target := t\<rparr>)
     = (resolveCollision s)\<lparr>orbitControls_enabled := e, orbitControls_target := t\<rparr>"
  by (simp add: resolveCollision_def applyCorrection_orbit)

lemma integrate_orbit:
  "integrate L delta (s\<lparr>orbitControls_enabled := e, orbitControls_target := t\<rparr>)
     = (integrate L delta s)\<lparr>orbitControls_enabled := e, orbitControls_target := t\<rparr>"
proof -
  have c: "camera_position (applyJump delta s\<lparr>orbitControls_enabled := e, orbitControls_target := t\<rparr>)
      = camera_position (applyJump delta s)"
    "collisionObjects (applyJump delta s\<lparr>orbitControls_enabled := e, orbitControls_target := t\<rparr>)
      = collisionObjects (applyJump delta s)"
    by simp_all
  show ?thesis
    unfolding integrate_def Let_def applyJump_orbit c land_orbit startFalling_orbit
      enforceMinimumHeight_orbit updateVelocity_orbit movePlayer_orbit ..
qed

lemma firstPersonUpdate_orbit:
  "firstPersonUpdate L delta (s\<lparr>orbitControls_enabled := e, orbitControls_target := t\<rparr>)
     = (firstPersonUpdate L delta s)\<lparr>orbitControls_enabled := e, orbitControls_target := t\<rparr>"
  by (simp only: firstPersonUpdate_def integrate_orbit resolveCollision_orbit)

lemma forward_tick:
  "camera_position (animate (exampleThree boxRaycast) 0.1 forwardState) = Vector3 0 1.6 9.8"
  by (simp add: animate_def firstPersonUpdate_def integrate_def Let_def forwardState_def
      lockedState_def initialState_def applyJump_def checkGround_def intersectObjects_def
      land_def startFalling_def enforceMinimumHeight_def playerHeight_def updateVelocity_def
      Number_def normalize_def vlength_def movePlayer_def controls_moveRight_def
      controls_moveForward_def addScaledVector_def exampleThree_def resolveCollision_def
      checkCollisions_def floorCollisionBox_def no_collision_def applyCorrection_def)

lemma turned_tick:
  "camera_position (animate (exampleThree boxRaycast) 0.1 turnedState) = Vector3 (- 0.2) 1.6 10"
  by (simp add: animate_def firstPersonUpdate_def integrate_def Let_def turnedState_def
      forwardState_def
      lockedState_def initialState_def applyJump_def checkGround_def intersectObjects_def
      land_def startFalling_def enforceMinimumHeight_def playerHeight_def updateVelocity_def
      Number_def normalize_def vlength_def movePlayer_def controls_moveRight_def
      controls_moveForward_def addScaledVector_def exampleThree_def resolveCollision_def
      checkCollisions_def floorCollisionBox_def no_collision_def applyCorrection_def)

text \<open>
  C10, as the code has it.  Two first-person ticks with the pointer locked that start from
  the same body (position, velocity, vertical velocity, \<open>isJumping\<close>, \<open>canJump\<close>), the
  same input flags, the same \<open>delta\<close>, the same solids and the same camera orientation end
  in the same body.
\<close>

theorem tick_deterministic:
  "body s1 = body s2 \<and> inputFlags s1 = inputFlags s2
   \<and> collisionObjects s1 = collisionObjects s2
   \<and> camera_quaternion s1 = camera_quaternion s2
   \<and> \<not> overviewMode s1 \<and> \<not> overviewMode s2
   \<and> controls_isLocked s1 \<and> controls_isLocked s2 \<longrightarrow>
   body (animate L delta s1) = body (animate L delta s2)"
proof
  assume h: "body s1 = body s2 \<and> inputFlags s1 = inputFlags s2
   \<and> collisionObjects s1 = collisionObjects s2
   \<and> camera_quaternion s1 = camera_quaternion s2
   \<and> \<not> overviewMode s1 \<and> \<not> overviewMode s2
   \<and> controls_isLocked s1 \<and> controls_isLocked s2"
  then have "s2 = s1\<lparr>orbitControls_enabled := orbitControls_enabled s2,
                 orbitControls_target := orbitControls_target s2\<rparr>"
    using state_eq_upto_orbit [where ?s1.0 = s1 and ?s2.0 = s2] by simp
  then have "firstPersonUpdate L delta s2
      = (firstPersonUpdate L delta s1)\<lparr>orbitControls_enabled := orbitControls_enabled s2,
                 orbitControls_target := orbitControls_target s2\<rparr>"
    using firstPersonUpdate_orbit [where L = L and delta = delta and s = s1] by metis
  then have "body (firstPersonUpdate L delta s2) = body (firstPersonUpdate L delta s1)"
    by (simp add: body_def)
  with h show "body (animate L delta s1) = body (animate L delta s2)"
    by (simp add: animate_def)
qed

theorem tick_deterministic_witness:
  "body forwardState = body orbitedState \<and> inputFlags forwardState = inputFlags orbitedState
   \<and> collisionObjects forwardState = collisionObjects orbitedState
   \<and> camera_quaternion forwardState = camera_quaternion orbitedState
   \<and> \<not> overviewMode forwardState \<and> \<not> overviewMode orbitedState
   \<and> controls_isLocked forwardState \<and> controls_isLocked orbitedState
   \<and> orbitControls_target forwardState \<noteq> orbitControls_target orbitedState
   \<and> body (animate (exampleThree boxRaycast) 0.1 forwardState)
       = body (animate (exampleThree boxRaycast) 0.1 orbitedState)"
proof -
  have h: "body forwardState = body orbitedState \<and> inputFlags forwardState = inputFlags orbitedState
   \<and> collisionObjects forwardState = collisionObjects orbitedState
   \<and> camera_quaternion forwardState = camera_quaternion orbitedState
   \<and> \<not> overviewMode forwardState \<and> \<not> overviewMode orbitedState
   \<and> controls_isLocked forwardState \<and> controls_isLocked orbitedState"
    by (simp add: body_def inputFlags_def orbitedState_def forwardState_def lockedState_def
        initialState_def)
  have t: "orbitControls_target forwardState \<noteq> orbitControls_target orbitedState"
    by (simp add: orbitedState_def forwardState_def lockedState_def initialState_def)
  from tick_deterministic [where ?s1.0 = forwardState and ?s2.0 = orbitedState
      and L = "exampleThree boxRaycast" and delta = "0.1"] h t
  show ?thesis by blast
qed

text \<open>
  The statement of C10 without the camera orientation fails: \<^verbatim>\<open>controls.moveForward\<close>
  moves along the camera's forward direction, so the same body with the same keys ends at
  \<open>(0, 1.6, 9.8)\<close> looking one way and at \<open>(-0.2, 1.6, 10)\<close> looking another.
\<close>

theorem tick_depends_on_orientation:
  "camera_position forwardState = camera_position turnedState
   \<and> velocity forwardState = velocity turnedState
   \<and> jumpVelocity forwardState = jumpVelocity turnedState
   \<and> isJumping forwardState = isJumping turnedState
   \<and> canJump forwardState = canJump turnedState
   \<and> inputFlags forwardState = inputFlags turnedState
   \<and> collisionObjects forwardState = collisionObjects turnedState
   \<and> \<not> overviewMode forwardState \<and> \<not> overviewMode turnedState
   \<and> controls_isLocked forwardState \<and> controls_isLocked turnedState
   \<and> camera_position (animate (exampleThree boxRaycast) 0.1 forwardState) = Vector3 0 1.6 9.8
   \<and> camera_position (animate (exampleThree boxRaycast) 0.1 turnedState) = Vector3 (- 0.2) 1.6 10
   \<and> camera_position (animate (exampleThree boxRaycast) 0.1 forwardState)
       \<noteq> camera_position (animate (exampleThree boxRaycast) 0.1 turnedState)"
proof -
  have "camera_position (animate (exampleThree boxRaycast) 0.1 forwardState)
       \<noteq> camera_position (animate (exampleThree boxRaycast) 0.1 turnedState)"
    unfolding forward_tick turned_tick by simp
  then show ?thesis
    using forward_tick turned_tick
    by (simp add: turnedState_def forwardState_def lockedState_def initialState_def
        inputFlags_def)
qed

end
